theory Spec2Isabelle
  imports Complex_Main
begin

section \<open>Analytical 3D sinograms: buildSino3D_core and buildSino3D_core_single\<close>

text \<open>
  The C functions \<^verbatim>\<open>buildSino3D_core_single\<close> and \<^verbatim>\<open>buildSino3D_core\<close> are embedded
  as HOL functions.  Conventions of the embedding:

  \<^item> C \<^verbatim>\<open>float\<close> values are modelled by \<^typ>\<open>real\<close>: rounding, overflow, NaN and
    infinities are outside the model.  HOL's \<open>x / 0 = 0\<close> differs from IEEE division
    (an infinity or NaN); where a theorem below evaluates a kernel at a concrete input,
    every divisor is non-zero or the quotient is overwritten before it is used, and the
    theorem on the slice modulation gives a value only where it also shows the divisor
    positive.  In the same way \<open>sqrt\<close> and \<open>ln\<close> are total in HOL and are evaluated at positive arguments
    only.
  \<^item> The output array \<^verbatim>\<open>float *A\<close> is a store from flat cell offsets to values; cell
    (slice \<open>k\<close>, angle \<open>i\<close>, detector \<open>j\<close>) lives at offset \<open>k*P*AngTot + i*P + j\<close>.
  \<^item> The sizes \<^verbatim>\<open>N\<close>, \<^verbatim>\<open>P\<close>, \<^verbatim>\<open>AngTot\<close> are array sizes and are modelled by \<^typ>\<open>nat\<close>;
    the expression \<^verbatim>\<open>P-1\<close> is computed on the integers.
  \<^item> The three nested \<^verbatim>\<open>for\<close> loops are folds over \<open>[0..<N]\<close>, \<open>[0..<AngTot]\<close>, \<open>[0..<P]\<close>;
    the OpenMP pragmas parallelise the slice loop over disjoint cells and are read
    sequentially.
  \<^item> The locals \<^verbatim>\<open>a1\<close> and \<^verbatim>\<open>b1\<close> are declared without initialiser; the values they hold
    on entry are explicit parameters of the model.
  \<^item> The diagnostics printed with \<^verbatim>\<open>printf\<close> are returned as a list of events; the
    informational dumps of the parsed fields are not modelled.
  \<^item> The model file is taken as already parsed: one record per \<^verbatim>\<open>Object\<close> line of the
    selected model, holding the values passed to \<^verbatim>\<open>buildSino3D_core_single\<close>.
\<close>

subsection \<open>Data\<close>

type_synonym buffer = "nat \<Rightarrow> real"

record primitive =
  prm_Object :: int
  prm_C0 :: real
  prm_x0 :: real
  prm_y0 :: real
  prm_z0 :: real
  prm_a :: real
  prm_b :: real
  prm_c :: real
  prm_psi_gr1 :: real
  prm_psi_gr2 :: real
  prm_psi_gr3 :: real

datatype diag = No_such_object | Prematurely_terminated

definition EPS :: real where
  "EPS = 0.000000001"

subsection \<open>Grid arrays (lines 46--59)\<close>

definition Sinorange_Pmax :: "nat \<Rightarrow> nat \<Rightarrow> real" where
  "Sinorange_Pmax N P = real P / real (N + 1)"

definition Sinorange_Pmin :: "nat \<Rightarrow> nat \<Rightarrow> real" where
  "Sinorange_Pmin N P = - Sinorange_Pmax N P"

definition H_p :: "nat \<Rightarrow> nat \<Rightarrow> real" where
  "H_p N P = (Sinorange_Pmax N P - Sinorange_Pmin N P) / (real P - 1)"

definition Sinorange_P_Ar :: "nat \<Rightarrow> nat \<Rightarrow> real list" where
  "Sinorange_P_Ar N P = map (\<lambda>i. Sinorange_Pmax N P - real i * H_p N P) [0..<P]"

definition H_x :: "nat \<Rightarrow> real" where
  "H_x N = (1 - (- 1)) / real N"

definition Tomorange_X_Ar :: "nat \<Rightarrow> real list" where
  "Tomorange_X_Ar N = map (\<lambda>i. - 1 + real i * H_x N) [0..<N]"

text \<open>\<^verbatim>\<open>Th\<close> is read at the indices below \<^verbatim>\<open>AngTot\<close>; the caller passes
  \<open>AngTot = length Th\<close>.\<close>

definition AnglesRad :: "real list \<Rightarrow> nat \<Rightarrow> real list" where
  "AnglesRad Th AngTot = map (\<lambda>i. (Th ! i) * (pi / 180)) [0..<AngTot]"

subsection \<open>Centre of the object under the two centring conventions\<close>

text \<open>Lines 63--73: \<^verbatim>\<open>x00\<close>, \<^verbatim>\<open>y00\<close>.\<close>

definition centre_xy :: "int \<Rightarrow> nat \<Rightarrow> real \<Rightarrow> real \<Rightarrow> real \<times> real" where
  "centre_xy CenTypeIn N x0 y0 =
     (if CenTypeIn = 0 then (x0 + H_x N, y0 + H_x N)
      else (x0 + 0.5 * H_x N, y0 + 0.5 * H_x N))"

text \<open>Lines 252--262: \<^verbatim>\<open>x11\<close>, \<^verbatim>\<open>y11\<close> of the rectangle.\<close>

definition centre_rect :: "int \<Rightarrow> nat \<Rightarrow> real \<Rightarrow> real \<Rightarrow> real \<times> real" where
  "centre_rect CenTypeIn N x0 y0 =
     (if CenTypeIn = 0 then (- 2 * y0 - H_x N, 2 * x0 + H_x N)
      else (- 2 * y0 - 0.5 * H_x N, 2 * x0 + 0.5 * H_x N))"

subsection \<open>Slice tables (lines 78--91)\<close>

definition c2_of :: "int \<Rightarrow> real \<Rightarrow> real" where
  "c2_of Object c = (let c2 = 1 / (c * c) in if Object = 4 then 4 * c2 else c2)"

definition Zdel :: "nat \<Rightarrow> real \<Rightarrow> real list" where
  "Zdel N z0 = map (\<lambda>i. Tomorange_X_Ar N ! i - z0) [0..<N]"

definition Zdel2 :: "nat \<Rightarrow> int \<Rightarrow> real \<Rightarrow> real \<Rightarrow> real list" where
  "Zdel2 N Object c z0 = map (\<lambda>i. c2_of Object c * (Zdel N z0 ! i)\<^sup>2) [0..<N]"

subsection \<open>The statement \<^verbatim>\<open>A[...] += v\<close>\<close>

text \<open>\<open>None\<close> stands for a cell the kernel does not touch.\<close>

definition upd :: "buffer \<Rightarrow> nat \<Rightarrow> real option \<Rightarrow> buffer" where
  "upd A n v = (case v of None \<Rightarrow> A | Some x \<Rightarrow> A(n := A n + x))"

subsection \<open>Per-cell formulas of the six objects\<close>

text \<open>Object 1, volumetric gaussian (lines 101--113).  \<open>a1\<close> and \<open>b1\<close> are read here
  but never assigned in this branch.\<close>

definition gauss_cell ::
  "nat \<Rightarrow> real \<Rightarrow> real \<Rightarrow> real \<Rightarrow> real \<Rightarrow> real \<Rightarrow> real \<Rightarrow> real \<Rightarrow> real \<Rightarrow> real option" where
  "gauss_cell N C0 a1 b1 x00 y00 phi_rot_radian ang p =
     (let C1 = - 4 * ln 2;
          AA5 = (real N / 2) * (C0 * sqrt a1 * sqrt b1 / 2) * sqrt (pi / ln 2);
          sin_2 = (sin (ang + phi_rot_radian))\<^sup>2;
          cos_2 = (cos (ang + phi_rot_radian))\<^sup>2;
          delta1 = 1 / (a1 * cos_2 + b1 * sin_2);
          delta_sq = sqrt delta1;
          first_dr = AA5 * delta_sq;
          AA2 = - x00 * cos ang + y00 * sin ang;
          AA3 = (p - AA2)\<^sup>2;
          under_exp = (C1 * AA3) * delta1
      in Some (first_dr * exp under_exp))"

text \<open>Object 2, parabola Lambda = 1/2 (lines 126--140): the pair \<open>(first_dr, AA6)\<close>
  and the guarded update.\<close>

definition parabola_ray ::
  "nat \<Rightarrow> real \<Rightarrow> real \<Rightarrow> real \<Rightarrow> real \<Rightarrow> real \<Rightarrow> real \<Rightarrow> real \<Rightarrow> real \<Rightarrow> real \<times> real" where
  "parabola_ray N C00 a1 b1 x00 y00 phi_rot_radian ang p =
     (let AA5 = (real N / 2) * ((pi / 2) * C00 * sqrt a1 * sqrt b1);
          sin_2 = (sin (ang + phi_rot_radian))\<^sup>2;
          cos_2 = (cos (ang + phi_rot_radian))\<^sup>2;
          delta1 = 1 / (a1 * cos_2 + b1 * sin_2);
          delta_sq = sqrt delta1;
          first_dr = AA5 * delta_sq;
          AA2 = - x00 * cos ang + y00 * sin ang;
          AA3 = (p - AA2)\<^sup>2;
          AA6 = AA3 * delta1
      in (first_dr, AA6))"

definition parabola_cell ::
  "nat \<Rightarrow> real \<Rightarrow> real \<Rightarrow> real \<Rightarrow> real \<Rightarrow> real \<Rightarrow> real \<Rightarrow> real \<Rightarrow> real \<Rightarrow> real option" where
  "parabola_cell N C00 a1 b1 x00 y00 phi_rot_radian ang p =
     (let (first_dr, AA6) = parabola_ray N C00 a1 b1 x00 y00 phi_rot_radian ang p
      in if AA6 < 1 then Some (first_dr * (1 - AA6)) else None)"

text \<open>Object 3, elliptical disk (lines 147--170).\<close>

definition disk_ray ::
  "nat \<Rightarrow> real \<Rightarrow> real \<Rightarrow> real \<Rightarrow> real \<Rightarrow> real \<Rightarrow> real \<Rightarrow> real \<Rightarrow> real \<Rightarrow> real \<times> real" where
  "disk_ray N C0 a b x00 y00 phi_rot_radian ang p =
     (let a22 = a * a;
          b22 = b * b;
          AA5 = real N * C0 * a * b;
          sin_2 = (sin (ang + phi_rot_radian))\<^sup>2;
          cos_2 = (cos (ang + phi_rot_radian))\<^sup>2;
          delta1 = 1 / (a22 * cos_2 + b22 * sin_2);
          delta_sq = sqrt delta1;
          first_dr = AA5 * delta_sq;
          AA2 = - x00 * cos ang + y00 * sin ang;
          AA3 = (p - AA2)\<^sup>2;
          AA6 = AA3 * delta1
      in (first_dr, AA6))"

definition disk_cell ::
  "nat \<Rightarrow> real \<Rightarrow> real \<Rightarrow> real \<Rightarrow> real \<Rightarrow> real \<Rightarrow> real \<Rightarrow> real \<Rightarrow> real \<Rightarrow> real option" where
  "disk_cell N C0 a b x00 y00 phi_rot_radian ang p =
     (let (first_dr, AA6) = disk_ray N C0 a b x00 y00 phi_rot_radian ang p
      in if AA6 < 1 then Some (first_dr * sqrt (1 - AA6)) else None)"

text \<open>Object 4, parabola Lambda = 1 (lines 185--198).\<close>

definition parabola1_ray ::
  "nat \<Rightarrow> real \<Rightarrow> real \<Rightarrow> real \<Rightarrow> real \<Rightarrow> real \<Rightarrow> real \<Rightarrow> real \<Rightarrow> real \<Rightarrow> real \<times> real" where
  "parabola1_ray N C00 a1 b1 x00 y00 phi_rot_radian ang p =
     (let AA5 = (real N / 2) * (4 * ((0.25 * sqrt a1 * sqrt b1 * C00) / 2.5));
          sin_2 = (sin (ang + phi_rot_radian))\<^sup>2;
          cos_2 = (cos (ang + phi_rot_radian))\<^sup>2;
          delta1 = 1 / (0.25 * a1 * cos_2 + 0.25 * b1 * sin_2);
          delta_sq = sqrt delta1;
          first_dr = AA5 * delta_sq;
          AA2 = - x00 * cos ang + y00 * sin ang;
          AA3 = (p - AA2)\<^sup>2;
          AA6 = AA3 * delta1
      in (first_dr, AA6))"

definition parabola1_cell ::
  "nat \<Rightarrow> real \<Rightarrow> real \<Rightarrow> real \<Rightarrow> real \<Rightarrow> real \<Rightarrow> real \<Rightarrow> real \<Rightarrow> real \<Rightarrow> real option" where
  "parabola1_cell N C00 a1 b1 x00 y00 phi_rot_radian ang p =
     (let (first_dr, AA6) = parabola1_ray N C00 a1 b1 x00 y00 phi_rot_radian ang p
      in if AA6 < 1 then Some (first_dr * (1 - AA6)) else None)"

text \<open>Object 5, cone (lines 214--237).  \<open>cone_terms\<close> is the body that computes
  \<^verbatim>\<open>pps2\<close> and \<^verbatim>\<open>rlogi\<close> from \<^verbatim>\<open>AA6\<close> (lines 226--235).\<close>

definition cone_terms :: "real \<Rightarrow> real \<times> real" where
  "cone_terms AA6 =
     (let pps2 = (if AA6 < 1 then (if AA6 < 1 - EPS then sqrt \<bar>1 - AA6\<bar> else 0) else 0);
          rlogi = (if AA6 > EPS \<and> pps2 \<noteq> 1
                   then (let ty1 = (1 + pps2) / (1 - pps2)
                         in if ty1 > 0 then 0.5 * AA6 * ln ty1 else 0)
                   else 0)
      in (pps2, rlogi))"

definition cone_ray ::
  "nat \<Rightarrow> real \<Rightarrow> real \<Rightarrow> real \<Rightarrow> real \<Rightarrow> real \<Rightarrow> real \<Rightarrow> real \<Rightarrow> real \<Rightarrow> real \<times> real" where
  "cone_ray N C00 a1 b1 x00 y00 phi_rot_radian ang p =
     (let AA5 = (real N / 2) * (sqrt a1 * sqrt b1 * C00);
          sin_2 = (sin (ang + phi_rot_radian))\<^sup>2;
          cos_2 = (cos (ang + phi_rot_radian))\<^sup>2;
          delta1 = 1 / (a1 * cos_2 + b1 * sin_2);
          delta_sq = sqrt delta1;
          first_dr = AA5 * delta_sq;
          AA2 = - x00 * cos ang + y00 * sin ang;
          AA3 = (p - AA2)\<^sup>2;
          AA6 = AA3 * delta1
      in (first_dr, AA6))"

definition cone_cell ::
  "nat \<Rightarrow> real \<Rightarrow> real \<Rightarrow> real \<Rightarrow> real \<Rightarrow> real \<Rightarrow> real \<Rightarrow> real \<Rightarrow> real \<Rightarrow> real option" where
  "cone_cell N C00 a1 b1 x00 y00 phi_rot_radian ang p =
     (let (first_dr, AA6) = cone_ray N C00 a1 b1 x00 y00 phi_rot_radian ang p;
          (pps2, rlogi) = cone_terms AA6
      in Some (first_dr * (pps2 - rlogi)))"

text \<open>Object 6, rectangle (lines 276--332).  The successive assignments to \<^verbatim>\<open>SS\<close>,
  \<^verbatim>\<open>FI\<close>, \<^verbatim>\<open>ksi\<close> and \<^verbatim>\<open>p\<close> are successive bindings of the same name.\<close>

definition rect_SS ::
  "real \<Rightarrow> real \<Rightarrow> real \<Rightarrow> real \<Rightarrow> real \<Rightarrow> real \<Rightarrow> real \<Rightarrow> real \<Rightarrow> real" where
  "rect_SS C0 xwid ywid x11 y11 ksi1 ksi00 p00 =
     (let PI2 = pi * 0.5;
          p = p00;
          ksi = ksi00;
          (ksi, p) = (if ksi > pi then (ksi - pi, - p00) else (ksi, p));
          C = cos ksi;
          S = sin ksi;
          XSYC = - x11 * S + y11 * C;
          A2 = xwid * 0.5;
          B2 = ywid * 0.5;
          FI = (if ksi - ksi1 < 0 then pi + ksi - ksi1 else ksi - ksi1);
          FI = (if FI > PI2 then pi - FI else FI);
          CF = cos FI;
          SF = sin FI;
          P0 = \<bar>p - XSYC\<bar>;
          SS = xwid / CF * C0;
          SS = (if \<bar>CF\<bar> \<le> EPS then (if P0 - A2 > EPS then 0 else ywid * C0) else SS);
          SS = (if \<bar>SF\<bar> \<le> EPS then (if P0 - B2 > EPS then 0 else xwid * C0) else SS);
          TF = SF / CF;
          PC = P0 / CF;
          QP = B2 + A2 * TF;
          QM = QP + PC;
          SS = (if QM > ywid
                then (let DEL = P0 + B2 * CF
                      in if DEL > A2 * SF then (QP - PC) / SF * C0 else ywid / SF * C0)
                else SS);
          SS = (if QM > ywid
                then (let DEL = P0 + B2 * CF
                      in if DEL > A2 * SF then (QP - PC) / SF * C0 else ywid / SF * C0)
                else xwid / CF * C0);
          SS = (if PC \<ge> QP then 0 else SS)
      in SS)"

subsection \<open>The loop nests of the six branches\<close>

text \<open>Object 1 (lines 100--114): every slice, no slice guard.\<close>

definition gauss_kernel ::
  "buffer \<Rightarrow> nat \<Rightarrow> nat \<Rightarrow> real list \<Rightarrow> nat \<Rightarrow> real \<Rightarrow> real \<Rightarrow> real \<Rightarrow> real \<Rightarrow> real \<Rightarrow> real \<Rightarrow> buffer" where
  "gauss_kernel A N P Th AngTot C0 a1 b1 x00 y00 phi_rot_radian =
     fold (\<lambda>k A.
       fold (\<lambda>i A.
         fold (\<lambda>j A.
           upd A (k * P * AngTot + i * P + j)
             (gauss_cell N C0 a1 b1 x00 y00 phi_rot_radian
                (AnglesRad Th AngTot ! i) (Sinorange_P_Ar N P ! j)))
           [0..<P] A)
         [0..<AngTot] A)
       [0..<N] A"

text \<open>Object 2 (lines 119--143).\<close>

definition parabola_kernel ::
  "buffer \<Rightarrow> nat \<Rightarrow> nat \<Rightarrow> real list \<Rightarrow> nat \<Rightarrow> real \<Rightarrow> real \<Rightarrow> real \<Rightarrow> real \<Rightarrow> real \<Rightarrow> real
     \<Rightarrow> real list \<Rightarrow> buffer" where
  "parabola_kernel A N P Th AngTot C0 a b x00 y00 phi_rot_radian Zd2 =
     fold (\<lambda>k A.
       if Zd2 ! k \<le> 1 then
         (let a1 = a * (1 - Zd2 ! k)\<^sup>2;
              b1 = b * (1 - Zd2 ! k)\<^sup>2;
              C00 = C0 * (1 - Zd2 ! k)\<^sup>2
          in fold (\<lambda>i A.
               fold (\<lambda>j A.
                 upd A (k * P * AngTot + i * P + j)
                   (parabola_cell N C00 a1 b1 x00 y00 phi_rot_radian
                      (AnglesRad Th AngTot ! i) (Sinorange_P_Ar N P ! j)))
                 [0..<P] A)
               [0..<AngTot] A)
       else A)
       [0..<N] A"

text \<open>Object 3 (lines 147--174): the slice guard only; the rescaling of \<^verbatim>\<open>a22\<close>,
  \<^verbatim>\<open>b22\<close> is commented out in the source.\<close>

definition disk_kernel ::
  "buffer \<Rightarrow> nat \<Rightarrow> nat \<Rightarrow> real list \<Rightarrow> nat \<Rightarrow> real \<Rightarrow> real \<Rightarrow> real \<Rightarrow> real \<Rightarrow> real \<Rightarrow> real
     \<Rightarrow> real list \<Rightarrow> buffer" where
  "disk_kernel A N P Th AngTot C0 a b x00 y00 phi_rot_radian Zd2 =
     fold (\<lambda>k A.
       if Zd2 ! k \<le> 1 then
         fold (\<lambda>i A.
           fold (\<lambda>j A.
             upd A (k * P * AngTot + i * P + j)
               (disk_cell N C0 a b x00 y00 phi_rot_radian
                  (AnglesRad Th AngTot ! i) (Sinorange_P_Ar N P ! j)))
             [0..<P] A)
           [0..<AngTot] A
       else A)
       [0..<N] A"

text \<open>Object 4 (lines 179--202).\<close>

definition parabola1_kernel ::
  "buffer \<Rightarrow> nat \<Rightarrow> nat \<Rightarrow> real list \<Rightarrow> nat \<Rightarrow> real \<Rightarrow> real \<Rightarrow> real \<Rightarrow> real \<Rightarrow> real \<Rightarrow> real
     \<Rightarrow> real list \<Rightarrow> buffer" where
  "parabola1_kernel A N P Th AngTot C0 a b x00 y00 phi_rot_radian Zd2 =
     fold (\<lambda>k A.
       if Zd2 ! k \<le> 1 then
         (let a1 = a * (1 - Zd2 ! k)\<^sup>2;
              b1 = b * (1 - Zd2 ! k)\<^sup>2;
              C00 = C0 * (1 - Zd2 ! k)\<^sup>2
          in fold (\<lambda>i A.
               fold (\<lambda>j A.
                 upd A (k * P * AngTot + i * P + j)
                   (parabola1_cell N C00 a1 b1 x00 y00 phi_rot_radian
                      (AnglesRad Th AngTot ! i) (Sinorange_P_Ar N P ! j)))
                 [0..<P] A)
               [0..<AngTot] A)
       else A)
       [0..<N] A"

text \<open>Object 5 (lines 208--240).\<close>

definition cone_kernel ::
  "buffer \<Rightarrow> nat \<Rightarrow> nat \<Rightarrow> real list \<Rightarrow> nat \<Rightarrow> real \<Rightarrow> real \<Rightarrow> real \<Rightarrow> real \<Rightarrow> real \<Rightarrow> real
     \<Rightarrow> real list \<Rightarrow> buffer" where
  "cone_kernel A N P Th AngTot C0 a b x00 y00 phi_rot_radian Zd2 =
     fold (\<lambda>k A.
       if Zd2 ! k \<le> 1 then
         (let a1 = a * (1 - Zd2 ! k)\<^sup>2;
              b1 = b * (1 - Zd2 ! k)\<^sup>2;
              C00 = C0 * (1 - Zd2 ! k)\<^sup>2
          in fold (\<lambda>i A.
               fold (\<lambda>j A.
                 upd A (k * P * AngTot + i * P + j)
                   (cone_cell N C00 a1 b1 x00 y00 phi_rot_radian
                      (AnglesRad Th AngTot ! i) (Sinorange_P_Ar N P ! j)))
                 [0..<P] A)
               [0..<AngTot] A)
       else A)
       [0..<N] A"

text \<open>Object 6 (lines 264--335): the slab guard is on \<^verbatim>\<open>Zdel\<close>, and the angle read
  for output row \<open>i\<close> is \<^verbatim>\<open>AnglesRad[(AngTot-1)-i]\<close>.\<close>

definition rect_kernel ::
  "buffer \<Rightarrow> nat \<Rightarrow> nat \<Rightarrow> real list \<Rightarrow> nat \<Rightarrow> real \<Rightarrow> real \<Rightarrow> real \<Rightarrow> real \<Rightarrow> real \<Rightarrow> real \<Rightarrow> real
     \<Rightarrow> real list \<Rightarrow> buffer" where
  "rect_kernel A N P Th AngTot C0 a b c x11 y11 phi_rot_radian Zd =
     (let xwid = b;
          ywid = a;
          c2 = 0.5 * c;
          ksi1 = (if phi_rot_radian < 0 then pi + phi_rot_radian else phi_rot_radian)
      in fold (\<lambda>k A.
           if \<bar>Zd ! k\<bar> < c2 then
             fold (\<lambda>i A.
               (let ksi00 = AnglesRad Th AngTot ! ((AngTot - 1) - i)
                in fold (\<lambda>j A.
                     (let p00 = Sinorange_P_Ar N P ! j
                      in upd A (k * P * AngTot + i * P + j)
                           (Some ((real N / 2) * rect_SS C0 xwid ywid x11 y11 ksi1 ksi00 p00))))
                     [0..<P] A))
               [0..<AngTot] A
           else A)
           [0..<N] A)"

subsection \<open>buildSino3D_core_single (lines 39--345)\<close>

text \<open>The result is the returned \<^verbatim>\<open>float\<close> (\<^verbatim>\<open>*A\<close>, or 0 on the last branch), the
  array, and the diagnostics printed.  \<open>a1\<close>, \<open>b1\<close> are the entry values of the
  uninitialised locals of the same names.  The dead assignments to \<^verbatim>\<open>a2\<close>, \<^verbatim>\<open>b2\<close>,
  \<^verbatim>\<open>lam1\<close>..\<^verbatim>\<open>lam3\<close>, \<^verbatim>\<open>phi\<close> and \<^verbatim>\<open>theta\<close> are left out.\<close>

definition returned :: "buffer \<Rightarrow> real \<times> buffer \<times> diag list" where
  "returned A = (A 0, A, [])"

definition buildSino3D_core_single ::
  "buffer \<Rightarrow> nat \<Rightarrow> nat \<Rightarrow> real list \<Rightarrow> nat \<Rightarrow> int \<Rightarrow> primitive \<Rightarrow> real \<Rightarrow> real
     \<Rightarrow> real \<times> buffer \<times> diag list" where
  "buildSino3D_core_single A N P Th AngTot CenTypeIn q a1 b1 =
     (let (x00, y00) = centre_xy CenTypeIn N (prm_x0 q) (prm_y0 q);
          phi_rot_radian = prm_psi_gr1 q * (pi / 180);
          Zd = Zdel N (prm_z0 q);
          Zd2 = Zdel2 N (prm_Object q) (prm_c q) (prm_z0 q)
      in if prm_Object q = 1 then
           returned (gauss_kernel A N P Th AngTot (prm_C0 q) a1 b1 x00 y00 phi_rot_radian)
         else if prm_Object q = 2 then
           returned (parabola_kernel A N P Th AngTot (prm_C0 q) (prm_a q) (prm_b q)
                       x00 y00 phi_rot_radian Zd2)
         else if prm_Object q = 3 then
           returned (disk_kernel A N P Th AngTot (prm_C0 q) (prm_a q) (prm_b q)
                       x00 y00 phi_rot_radian Zd2)
         else if prm_Object q = 4 then
           returned (parabola1_kernel A N P Th AngTot (prm_C0 q) (prm_a q) (prm_b q)
                       x00 y00 phi_rot_radian Zd2)
         else if prm_Object q = 5 then
           returned (cone_kernel A N P Th AngTot (prm_C0 q) (prm_a q) (prm_b q)
                       x00 y00 phi_rot_radian Zd2)
         else if prm_Object q = 6 then
           (let (x11, y11) = centre_rect CenTypeIn N (prm_x0 q) (prm_y0 q)
            in returned (rect_kernel A N P Th AngTot (prm_C0 q) (prm_a q) (prm_b q) (prm_c q)
                           x11 y11 phi_rot_radian Zd))
         else (0, A, [No_such_object]))"

subsection \<open>buildSino3D_core: the loop over the components (lines 401--433)\<close>

text \<open>One element of the list is one \<^verbatim>\<open>Object\<close> line of the selected model together
  with the values the locals \<^verbatim>\<open>a1\<close>, \<^verbatim>\<open>b1\<close> hold when \<^verbatim>\<open>buildSino3D_core_single\<close> is
  entered for it.  \<^verbatim>\<open>parameters_check3D\<close> is declared in \<^verbatim>\<open>utils.h\<close> and is a
  parameter here.  The value returned by \<^verbatim>\<open>buildSino3D_core_single\<close> is dropped by the
  caller, and the loop has no \<^verbatim>\<open>break\<close>.\<close>

type_synonym checker = "real \<Rightarrow> real \<Rightarrow> real \<Rightarrow> real \<Rightarrow> real \<Rightarrow> real \<Rightarrow> real \<Rightarrow> int"

definition component_step ::
  "nat \<Rightarrow> nat \<Rightarrow> real list \<Rightarrow> nat \<Rightarrow> int \<Rightarrow> checker \<Rightarrow> primitive \<times> real \<times> real
     \<Rightarrow> buffer \<times> diag list \<Rightarrow> buffer \<times> diag list" where
  "component_step N P Th AngTot CenTypeIn parameters_check3D ln_obj st =
     (case ln_obj of (q, a1, b1) \<Rightarrow>
      case st of (A, out) \<Rightarrow>
       (let func_val = parameters_check3D (prm_C0 q) (prm_x0 q) (prm_y0 q) (prm_z0 q)
                         (prm_a q) (prm_b q) (prm_c q)
        in if func_val = 0 then
             (case buildSino3D_core_single A N P Th AngTot CenTypeIn q a1 b1 of
                (r, A', ds) \<Rightarrow> (A', out @ ds))
           else (A, out @ [Prematurely_terminated])))"

definition buildSino3D_core ::
  "buffer \<Rightarrow> nat \<Rightarrow> nat \<Rightarrow> real list \<Rightarrow> nat \<Rightarrow> int \<Rightarrow> checker \<Rightarrow> (primitive \<times> real \<times> real) list
     \<Rightarrow> real \<times> buffer \<times> diag list" where
  "buildSino3D_core A N P Th AngTot CenTypeIn parameters_check3D comps =
     (case fold (component_step N P Th AngTot CenTypeIn parameters_check3D) comps (A, []) of
        (A', out) \<Rightarrow> (A' 0, A', out))"

text \<open>The array left by a call.\<close>

definition array_of :: "real \<times> buffer \<times> diag list \<Rightarrow> buffer" where
  "array_of r = fst (snd r)"

definition diags_of :: "real \<times> buffer \<times> diag list \<Rightarrow> diag list" where
  "diags_of r = snd (snd r)"

subsection \<open>A common shape of the six loop nests\<close>

text \<open>All six branches run the same nest (slice, angle, detector) over the same cell
  offset; \<open>loops\<close> is that nest with the slice guard \<open>g\<close> and the per-cell value \<open>w\<close>
  left open.  It is used to reason about the kernels, which are proved equal to
  instances of it.\<close>

definition val :: "real option \<Rightarrow> real" where
  "val v = (case v of None \<Rightarrow> 0 | Some x \<Rightarrow> x)"

definition loops ::
  "nat \<Rightarrow> nat \<Rightarrow> nat \<Rightarrow> (nat \<Rightarrow> bool) \<Rightarrow> (nat \<Rightarrow> nat \<Rightarrow> nat \<Rightarrow> real option) \<Rightarrow> buffer \<Rightarrow> buffer" where
  "loops N AngTot P g w A =
     fold (\<lambda>k A.
       if g k then
         fold (\<lambda>i A.
           fold (\<lambda>j A. upd A (k * P * AngTot + i * P + j) (w k i j)) [0..<P] A)
           [0..<AngTot] A
       else A)
       [0..<N] A"

subsection \<open>Executions of the loop body in the nests of objects 2 to 5\<close>

text \<open>The nests of objects 2, 3, 4 and 5 (lines 119--143, 151--174, 179--202 and
  208--240) are the same three loops under the same guard \<^verbatim>\<open>Zdel2[k] <= 1\<close>.
  \<open>nest_evals\<close> is that nest with the body of the detector loop replaced by an
  increment: it counts how often the body is executed.\<close>

definition nest_evals :: "nat \<Rightarrow> nat \<Rightarrow> nat \<Rightarrow> real list \<Rightarrow> nat" where
  "nest_evals N AngTot P Zd2 =
     fold (\<lambda>k n.
       if Zd2 ! k \<le> 1 then
         fold (\<lambda>i n.
           fold (\<lambda>j n. Suc n) [0..<P] n)
           [0..<AngTot] n
       else n)
       [0..<N] 0"

subsection \<open>Concrete inputs\<close>

text \<open>The zero-initialised array the caller passes, and example components for the
  grid \<open>N = 2\<close>, \<open>P = 2\<close> with the single angle of 0 degrees.\<close>

definition zeros :: buffer where
  "zeros = (\<lambda>_. 0)"

definition rect_example :: primitive where
  "rect_example =
     \<lparr>prm_Object = 6, prm_C0 = 1, prm_x0 = - (1 / 3), prm_y0 = 0, prm_z0 = 0, prm_a = 1,
      prm_b = 1 / 2, prm_c = 1, prm_psi_gr1 = 0, prm_psi_gr2 = 0, prm_psi_gr3 = 0\<rparr>"

text \<open>A component with shape tag 7, and a validator that accepts everything.\<close>

definition tag7_example :: primitive where
  "tag7_example =
     \<lparr>prm_Object = 7, prm_C0 = 1, prm_x0 = 0, prm_y0 = 0, prm_z0 = 0, prm_a = 1,
      prm_b = 1, prm_c = 1, prm_psi_gr1 = 0, prm_psi_gr2 = 0, prm_psi_gr3 = 0\<rparr>"

definition accept_all :: checker where
  "accept_all C0 x0 y0 z0 a b c = 0"

text \<open>The value of \<^verbatim>\<open>AA6\<close> that the branch of objects 2, 3 and 4 computes for the cell
  \<open>(k, i, j)\<close> (lines 137, 168 and 196): the squared distance of the detector offset
  from the ray offset \<^verbatim>\<open>AA2\<close> of the centre, times \<^verbatim>\<open>delta1\<close>.\<close>

definition AA6_at ::
  "nat \<Rightarrow> nat \<Rightarrow> real list \<Rightarrow> nat \<Rightarrow> int \<Rightarrow> primitive \<Rightarrow> nat \<Rightarrow> nat \<Rightarrow> nat \<Rightarrow> real" where
  "AA6_at N P Th AngTot CenTypeIn q k i j =
     (let (x00, y00) = centre_xy CenTypeIn N (prm_x0 q) (prm_y0 q);
          phi_rot_radian = prm_psi_gr1 q * (pi / 180);
          Zd2 = Zdel2 N (prm_Object q) (prm_c q) (prm_z0 q);
          a1 = prm_a q * (1 - Zd2 ! k)\<^sup>2;
          b1 = prm_b q * (1 - Zd2 ! k)\<^sup>2;
          C00 = prm_C0 q * (1 - Zd2 ! k)\<^sup>2;
          ang = AnglesRad Th AngTot ! i;
          p = Sinorange_P_Ar N P ! j
      in if prm_Object q = 3 then
           snd (disk_ray N (prm_C0 q) (prm_a q) (prm_b q) x00 y00 phi_rot_radian ang p)
         else if prm_Object q = 4 then
           snd (parabola1_ray N C00 a1 b1 x00 y00 phi_rot_radian ang p)
         else
           snd (parabola_ray N C00 a1 b1 x00 y00 phi_rot_radian ang p))"

definition small_disk_example :: primitive where
  "small_disk_example =
     \<lparr>prm_Object = 3, prm_C0 = 1, prm_x0 = - 1, prm_y0 = 0, prm_z0 = 0, prm_a = 1 / 2,
      prm_b = 1 / 2, prm_c = 1, prm_psi_gr1 = 0, prm_psi_gr2 = 0, prm_psi_gr3 = 0\<rparr>"

text \<open>A disk centred half a slice step away from both slices; and, for a shape tag
  \<open>obj\<close> and an extent \<open>c\<close>, a component centred in the same way whose ray offset at angle
  0 is the second detector offset.\<close>

definition disk_example :: primitive where
  "disk_example =
     \<lparr>prm_Object = 3, prm_C0 = 1, prm_x0 = - 1, prm_y0 = 0, prm_z0 = - (1 / 2), prm_a = 1,
      prm_b = 1, prm_c = 1, prm_psi_gr1 = 0, prm_psi_gr2 = 0, prm_psi_gr3 = 0\<rparr>"

definition slice_example :: "int \<Rightarrow> real \<Rightarrow> primitive" where
  "slice_example obj c =
     \<lparr>prm_Object = obj, prm_C0 = 1, prm_x0 = - (1 / 3), prm_y0 = 0, prm_z0 = - (1 / 2),
      prm_a = 1, prm_b = 1, prm_c = c, prm_psi_gr1 = 0, prm_psi_gr2 = 0, prm_psi_gr3 = 0\<rparr>"

text \<open>A parabola with Lambda = 1 whose extent \<open>c\<close> contains slice 0 while \<open>c/2\<close>
  does not.\<close>

definition parabola1_example :: primitive where
  "parabola1_example =
     \<lparr>prm_Object = 4, prm_C0 = 1, prm_x0 = - (1 / 3), prm_y0 = 0, prm_z0 = - (1 / 2),
      prm_a = 1, prm_b = 1, prm_c = 3 / 4, prm_psi_gr1 = 0, prm_psi_gr2 = 0, prm_psi_gr3 = 0\<rparr>"

text \<open>A gaussian whose ray offset at angle 0 is the second detector offset.\<close>

definition gauss_example :: primitive where
  "gauss_example =
     \<lparr>prm_Object = 1, prm_C0 = 1, prm_x0 = - (1 / 3), prm_y0 = 0, prm_z0 = 0, prm_a = 1,
      prm_b = 1, prm_c = 1, prm_psi_gr1 = 0, prm_psi_gr2 = 0, prm_psi_gr3 = 0\<rparr>"

section \<open>Lemmas on the loop nest\<close>

lemma upd_apply: "upd A n v x = A x + (if x = n then val v else 0)"
  by (simp add: upd_def val_def split: option.splits)

lemma fold_additive:
  assumes "\<And>n A x. F n A x = A x + c n x"
  shows "fold F ns A x = A x + sum_list (map (\<lambda>n. c n x) ns)"
proof (induction ns arbitrary: A)
  case Nil
  show ?case by simp
next
  case (Cons n ns)
  have "fold F (n # ns) A x = fold F ns (F n A) x" by simp
  also have "\<dots> = F n A x + sum_list (map (\<lambda>n. c n x) ns)" by (rule Cons.IH)
  also have "\<dots> = A x + sum_list (map (\<lambda>n. c n x) (n # ns))"
    by (simp only: assms list.map sum_list.Cons add.assoc)
  finally show ?case .
qed

lemma fold_upt_additive:
  assumes "\<And>n A x. F n A x = A x + c n x"
  shows "fold F [0..<M] A x = A x + (\<Sum>n<M. c n x)"
proof -
  have "sum_list (map (\<lambda>n. c n x) [0..<M]) = (\<Sum>n<M. c n x)"
    by (simp add: interv_sum_list_conv_sum_set_nat atLeast0LessThan)
  then show ?thesis using fold_additive [of F c, OF assms] by simp
qed

text \<open>The nest adds, to every offset, the values of the cells that live there.\<close>

lemma loops_sum:
  "loops N AngTot P g w A x =
     A x + (\<Sum>k<N. if g k
                    then (\<Sum>i<AngTot. \<Sum>j<P.
                            if x = k * P * AngTot + i * P + j then val (w k i j) else 0)
                    else 0)"
proof -
  have j: "fold (\<lambda>j A. upd A (k * P * AngTot + i * P + j) (w k i j)) [0..<P] B y =
        B y + (\<Sum>j<P. if y = k * P * AngTot + i * P + j then val (w k i j) else 0)"
    for k i B y
    by (rule fold_upt_additive) (rule upd_apply)
  have i: "fold (\<lambda>i A. fold (\<lambda>j A. upd A (k * P * AngTot + i * P + j) (w k i j)) [0..<P] A)
             [0..<AngTot] B y =
        B y + (\<Sum>i<AngTot. \<Sum>j<P.
                 if y = k * P * AngTot + i * P + j then val (w k i j) else 0)"
    for k B y
    by (rule fold_upt_additive) (rule j)
  show ?thesis
    unfolding loops_def
    by (rule fold_upt_additive) (simp add: i)
qed

lemma loops_additive:
  "loops N AngTot P g w A x = A x + loops N AngTot P g w (\<lambda>_. 0) x"
  by (simp add: loops_sum)

text \<open>Distinct cells of the grid live at distinct offsets.\<close>

lemma idx_inj:
  fixes P AngTot :: nat
  assumes "i < AngTot" "j < P" "i' < AngTot" "j' < P"
  shows "k * P * AngTot + i * P + j = k' * P * AngTot + i' * P + j'
           \<longleftrightarrow> k = k' \<and> i = i' \<and> j = j'"
proof
  assume e: "k * P * AngTot + i * P + j = k' * P * AngTot + i' * P + j'"
  have a: "k * P * AngTot + i * P + j = (k * AngTot + i) * P + j" for k i j
    by (simp add: algebra_simps)
  from e have e': "(k * AngTot + i) * P + j = (k' * AngTot + i') * P + j'"
    by (simp only: a)
  have "((k * AngTot + i) * P + j) div P = k * AngTot + i" using assms by simp
  moreover have "((k' * AngTot + i') * P + j') div P = k' * AngTot + i'" using assms by simp
  ultimately have q: "k * AngTot + i = k' * AngTot + i'" using e' by simp
  have "((k * AngTot + i) * P + j) mod P = j" using assms by simp
  moreover have "((k' * AngTot + i') * P + j') mod P = j'" using assms by simp
  ultimately have "j = j'" using e' by simp
  moreover have "(k * AngTot + i) div AngTot = k" using assms by simp
  moreover have "(k' * AngTot + i') div AngTot = k'" using assms by simp
  moreover have "(k * AngTot + i) mod AngTot = i" using assms by simp
  moreover have "(k' * AngTot + i') mod AngTot = i'" using assms by simp
  ultimately show "k = k' \<and> i = i' \<and> j = j'" using q by metis
qed simp

text \<open>The value left in one cell of the grid.\<close>

lemma loops_cell:
  assumes "k < N" "i < AngTot" "j < P"
  shows "loops N AngTot P g w A (k * P * AngTot + i * P + j) =
           A (k * P * AngTot + i * P + j) + (if g k then val (w k i j) else 0)"
proof -
  let ?x = "k * P * AngTot + i * P + j"
  have inner: "(\<Sum>i'<AngTot. \<Sum>j'<P.
                  if ?x = k' * P * AngTot + i' * P + j' then val (w k' i' j') else 0)
       = (if k' = k then val (w k i j) else 0)" for k'
  proof -
    have "(\<Sum>i'<AngTot. \<Sum>j'<P.
             if ?x = k' * P * AngTot + i' * P + j' then val (w k' i' j') else 0)
        = (\<Sum>i'<AngTot. \<Sum>j'<P. if k' = k \<and> i' = i \<and> j' = j then val (w k i j) else 0)"
      by (intro sum.cong refl) (use assms idx_inj [of i AngTot j P _ _ k k'] in auto)
    also have "\<dots> = (\<Sum>i'<AngTot. if k' = k \<and> i' = i then val (w k i j) else 0)"
    proof (intro sum.cong refl)
      fix i'
      show "(\<Sum>j'<P. if k' = k \<and> i' = i \<and> j' = j then val (w k i j) else 0)
          = (if k' = k \<and> i' = i then val (w k i j) else 0)"
      proof (cases "k' = k \<and> i' = i")
        case True
        then show ?thesis using assms by (simp add: sum.delta)
      next
        case False
        then show ?thesis by auto
      qed
    qed
    also have "\<dots> = (if k' = k then val (w k i j) else 0)"
    proof (cases "k' = k")
      case True
      then show ?thesis using assms by (simp add: sum.delta)
    next
      case False
      then show ?thesis by simp
    qed
    finally show ?thesis .
  qed
  have "(\<Sum>k'<N. if g k'
                 then (\<Sum>i'<AngTot. \<Sum>j'<P.
                         if ?x = k' * P * AngTot + i' * P + j' then val (w k' i' j') else 0)
                 else 0)
      = (\<Sum>k'<N. if k' = k then (if g k then val (w k i j) else 0) else 0)"
  proof (intro sum.cong refl)
    fix k'
    show "(if g k'
           then (\<Sum>i'<AngTot. \<Sum>j'<P.
                   if ?x = k' * P * AngTot + i' * P + j' then val (w k' i' j') else 0)
           else 0)
        = (if k' = k then (if g k then val (w k i j) else 0) else 0)"
      by (cases "k' = k") (simp_all only: inner if_True if_False refl if_cancel)
  qed
  also have "\<dots> = (if g k then val (w k i j) else 0)"
    using assms by (simp add: sum.delta)
  finally show ?thesis by (simp add: loops_sum)
qed

text \<open>The six kernels as instances of the nest.\<close>

lemma gauss_kernel_loops:
  "gauss_kernel A N P Th AngTot C0 a1 b1 x00 y00 phi =
     loops N AngTot P (\<lambda>k. True)
       (\<lambda>k i j. gauss_cell N C0 a1 b1 x00 y00 phi
                  (AnglesRad Th AngTot ! i) (Sinorange_P_Ar N P ! j)) A"
  by (simp add: gauss_kernel_def loops_def)

lemma parabola_kernel_loops:
  "parabola_kernel A N P Th AngTot C0 a b x00 y00 phi Zd2 =
     loops N AngTot P (\<lambda>k. Zd2 ! k \<le> 1)
       (\<lambda>k i j. parabola_cell N (C0 * (1 - Zd2 ! k)\<^sup>2) (a * (1 - Zd2 ! k)\<^sup>2)
                  (b * (1 - Zd2 ! k)\<^sup>2) x00 y00 phi
                  (AnglesRad Th AngTot ! i) (Sinorange_P_Ar N P ! j)) A"
  by (simp add: parabola_kernel_def loops_def Let_def cong: if_cong)

lemma disk_kernel_loops:
  "disk_kernel A N P Th AngTot C0 a b x00 y00 phi Zd2 =
     loops N AngTot P (\<lambda>k. Zd2 ! k \<le> 1)
       (\<lambda>k i j. disk_cell N C0 a b x00 y00 phi
                  (AnglesRad Th AngTot ! i) (Sinorange_P_Ar N P ! j)) A"
  by (simp add: disk_kernel_def loops_def)

lemma parabola1_kernel_loops:
  "parabola1_kernel A N P Th AngTot C0 a b x00 y00 phi Zd2 =
     loops N AngTot P (\<lambda>k. Zd2 ! k \<le> 1)
       (\<lambda>k i j. parabola1_cell N (C0 * (1 - Zd2 ! k)\<^sup>2) (a * (1 - Zd2 ! k)\<^sup>2)
                  (b * (1 - Zd2 ! k)\<^sup>2) x00 y00 phi
                  (AnglesRad Th AngTot ! i) (Sinorange_P_Ar N P ! j)) A"
  by (simp add: parabola1_kernel_def loops_def Let_def cong: if_cong)

lemma cone_kernel_loops:
  "cone_kernel A N P Th AngTot C0 a b x00 y00 phi Zd2 =
     loops N AngTot P (\<lambda>k. Zd2 ! k \<le> 1)
       (\<lambda>k i j. cone_cell N (C0 * (1 - Zd2 ! k)\<^sup>2) (a * (1 - Zd2 ! k)\<^sup>2)
                  (b * (1 - Zd2 ! k)\<^sup>2) x00 y00 phi
                  (AnglesRad Th AngTot ! i) (Sinorange_P_Ar N P ! j)) A"
  by (simp add: cone_kernel_def loops_def Let_def cong: if_cong)

lemma rect_kernel_loops:
  "rect_kernel A N P Th AngTot C0 a b c x11 y11 phi Zd =
     loops N AngTot P (\<lambda>k. \<bar>Zd ! k\<bar> < 0.5 * c)
       (\<lambda>k i j. Some ((real N / 2) *
                  rect_SS C0 b a x11 y11 (if phi < 0 then pi + phi else phi)
                    (AnglesRad Th AngTot ! ((AngTot - 1) - i)) (Sinorange_P_Ar N P ! j))) A"
  by (simp add: rect_kernel_def loops_def Let_def cong: if_cong)

section \<open>buildSino3D_core_single as an instance of the nest\<close>

lemma array_of_returned [simp]: "array_of (returned A) = A"
  by (simp add: array_of_def returned_def)

lemma single_gauss:
  assumes "prm_Object q = 1"
  shows "array_of (buildSino3D_core_single A N P Th AngTot CenTypeIn q a1 b1) =
     loops N AngTot P (\<lambda>k. True)
       (\<lambda>k i j. gauss_cell N (prm_C0 q) a1 b1
                  (fst (centre_xy CenTypeIn N (prm_x0 q) (prm_y0 q)))
                  (snd (centre_xy CenTypeIn N (prm_x0 q) (prm_y0 q)))
                  (prm_psi_gr1 q * (pi / 180))
                  (AnglesRad Th AngTot ! i) (Sinorange_P_Ar N P ! j)) A"
  using assms
  by (simp add: buildSino3D_core_single_def gauss_kernel_loops split_beta Let_def)

lemma single_parabola:
  assumes "prm_Object q = 2"
  shows "array_of (buildSino3D_core_single A N P Th AngTot CenTypeIn q a1 b1) =
     loops N AngTot P (\<lambda>k. Zdel2 N 2 (prm_c q) (prm_z0 q) ! k \<le> 1)
       (\<lambda>k i j. parabola_cell N
                  (prm_C0 q * (1 - Zdel2 N 2 (prm_c q) (prm_z0 q) ! k)\<^sup>2)
                  (prm_a q * (1 - Zdel2 N 2 (prm_c q) (prm_z0 q) ! k)\<^sup>2)
                  (prm_b q * (1 - Zdel2 N 2 (prm_c q) (prm_z0 q) ! k)\<^sup>2)
                  (fst (centre_xy CenTypeIn N (prm_x0 q) (prm_y0 q)))
                  (snd (centre_xy CenTypeIn N (prm_x0 q) (prm_y0 q)))
                  (prm_psi_gr1 q * (pi / 180))
                  (AnglesRad Th AngTot ! i) (Sinorange_P_Ar N P ! j)) A"
  using assms
  by (simp add: buildSino3D_core_single_def parabola_kernel_loops split_beta Let_def)

lemma single_disk:
  assumes "prm_Object q = 3"
  shows "array_of (buildSino3D_core_single A N P Th AngTot CenTypeIn q a1 b1) =
     loops N AngTot P (\<lambda>k. Zdel2 N 3 (prm_c q) (prm_z0 q) ! k \<le> 1)
       (\<lambda>k i j. disk_cell N (prm_C0 q) (prm_a q) (prm_b q)
                  (fst (centre_xy CenTypeIn N (prm_x0 q) (prm_y0 q)))
                  (snd (centre_xy CenTypeIn N (prm_x0 q) (prm_y0 q)))
                  (prm_psi_gr1 q * (pi / 180))
                  (AnglesRad Th AngTot ! i) (Sinorange_P_Ar N P ! j)) A"
  using assms
  by (simp add: buildSino3D_core_single_def disk_kernel_loops split_beta Let_def)

lemma single_parabola1:
  assumes "prm_Object q = 4"
  shows "array_of (buildSino3D_core_single A N P Th AngTot CenTypeIn q a1 b1) =
     loops N AngTot P (\<lambda>k. Zdel2 N 4 (prm_c q) (prm_z0 q) ! k \<le> 1)
       (\<lambda>k i j. parabola1_cell N
                  (prm_C0 q * (1 - Zdel2 N 4 (prm_c q) (prm_z0 q) ! k)\<^sup>2)
                  (prm_a q * (1 - Zdel2 N 4 (prm_c q) (prm_z0 q) ! k)\<^sup>2)
                  (prm_b q * (1 - Zdel2 N 4 (prm_c q) (prm_z0 q) ! k)\<^sup>2)
                  (fst (centre_xy CenTypeIn N (prm_x0 q) (prm_y0 q)))
                  (snd (centre_xy CenTypeIn N (prm_x0 q) (prm_y0 q)))
                  (prm_psi_gr1 q * (pi / 180))
                  (AnglesRad Th AngTot ! i) (Sinorange_P_Ar N P ! j)) A"
  using assms
  by (simp add: buildSino3D_core_single_def parabola1_kernel_loops split_beta Let_def)

lemma single_cone:
  assumes "prm_Object q = 5"
  shows "array_of (buildSino3D_core_single A N P Th AngTot CenTypeIn q a1 b1) =
     loops N AngTot P (\<lambda>k. Zdel2 N 5 (prm_c q) (prm_z0 q) ! k \<le> 1)
       (\<lambda>k i j. cone_cell N
                  (prm_C0 q * (1 - Zdel2 N 5 (prm_c q) (prm_z0 q) ! k)\<^sup>2)
                  (prm_a q * (1 - Zdel2 N 5 (prm_c q) (prm_z0 q) ! k)\<^sup>2)
                  (prm_b q * (1 - Zdel2 N 5 (prm_c q) (prm_z0 q) ! k)\<^sup>2)
                  (fst (centre_xy CenTypeIn N (prm_x0 q) (prm_y0 q)))
                  (snd (centre_xy CenTypeIn N (prm_x0 q) (prm_y0 q)))
                  (prm_psi_gr1 q * (pi / 180))
                  (AnglesRad Th AngTot ! i) (Sinorange_P_Ar N P ! j)) A"
  using assms
  by (simp add: buildSino3D_core_single_def cone_kernel_loops split_beta Let_def)

lemma single_rect:
  assumes "prm_Object q = 6"
  shows "array_of (buildSino3D_core_single A N P Th AngTot CenTypeIn q a1 b1) =
     loops N AngTot P (\<lambda>k. \<bar>Zdel N (prm_z0 q) ! k\<bar> < 0.5 * prm_c q)
       (\<lambda>k i j. Some ((real N / 2) *
                  rect_SS (prm_C0 q) (prm_b q) (prm_a q)
                    (fst (centre_rect CenTypeIn N (prm_x0 q) (prm_y0 q)))
                    (snd (centre_rect CenTypeIn N (prm_x0 q) (prm_y0 q)))
                    (if prm_psi_gr1 q * (pi / 180) < 0 then pi + prm_psi_gr1 q * (pi / 180)
                     else prm_psi_gr1 q * (pi / 180))
                    (AnglesRad Th AngTot ! ((AngTot - 1) - i)) (Sinorange_P_Ar N P ! j))) A"
  using assms
  by (simp add: buildSino3D_core_single_def rect_kernel_loops split_beta Let_def)

lemma single_unknown:
  assumes "prm_Object q < 1 \<or> 6 < prm_Object q"
  shows "buildSino3D_core_single A N P Th AngTot CenTypeIn q a1 b1 = (0, A, [No_such_object])"
  using assms by (auto simp add: buildSino3D_core_single_def split_beta)

lemma object_cases:
  fixes n :: int
  obtains "n = 1" | "n = 2" | "n = 3" | "n = 4" | "n = 5" | "n = 6" | "n < 1 \<or> 6 < n"
  by arith

lemma single_additive:
  "array_of (buildSino3D_core_single A N P Th AngTot CenTypeIn q a1 b1) x =
     A x + array_of (buildSino3D_core_single (\<lambda>_. 0) N P Th AngTot CenTypeIn q a1 b1) x"
proof (cases "prm_Object q" rule: object_cases)
  case 1
  show ?thesis unfolding single_gauss [OF 1] by (rule loops_additive)
next
  case 2
  show ?thesis unfolding single_parabola [OF 2] by (rule loops_additive)
next
  case 3
  show ?thesis unfolding single_disk [OF 3] by (rule loops_additive)
next
  case 4
  show ?thesis unfolding single_parabola1 [OF 4] by (rule loops_additive)
next
  case 5
  show ?thesis unfolding single_cone [OF 5] by (rule loops_additive)
next
  case 6
  show ?thesis unfolding single_rect [OF 6] by (rule loops_additive)
next
  case 7
  show ?thesis unfolding single_unknown [OF 7] by (simp add: array_of_def)
qed

text \<open>Every write of the nest goes to one of the \<open>N * P * AngTot\<close> cells of the array.\<close>

lemma idx_bound:
  fixes P AngTot :: nat
  assumes "k < N" and "i < AngTot" and "j < P"
  shows "k * P * AngTot + i * P + j < N * P * AngTot"
proof -
  have "i * P + j < i * P + P" using assms(3) by simp
  also have "\<dots> = Suc i * P" by simp
  also have "\<dots> \<le> AngTot * P" using assms(2) by (intro mult_le_mono1) simp
  finally have a: "i * P + j < AngTot * P" .
  have "k * P * AngTot + i * P + j < k * (AngTot * P) + AngTot * P"
    using a by (simp add: mult.commute mult.left_commute)
  also have "\<dots> = Suc k * (AngTot * P)" by simp
  also have "\<dots> \<le> N * (AngTot * P)" using assms(1) by (intro mult_le_mono1) simp
  finally show ?thesis by (simp add: mult.commute mult.left_commute)
qed

lemma loops_outside:
  assumes "N * P * AngTot \<le> x"
  shows "loops N AngTot P g w A x = A x"
proof -
  have "(\<Sum>i<AngTot. \<Sum>j<P. if x = k * P * AngTot + i * P + j then val (w k i j) else 0) = 0"
    if "k < N" for k
  proof (intro sum.neutral ballI)
    fix i j
    assume "i \<in> {..<AngTot}" and "j \<in> {..<P}"
    then have "k * P * AngTot + i * P + j < N * P * AngTot"
      using that by (intro idx_bound) simp_all
    then show "(if x = k * P * AngTot + i * P + j then val (w k i j) else 0) = 0"
      using assms by simp
  qed
  then have "(\<Sum>k<N. if g k
                then (\<Sum>i<AngTot. \<Sum>j<P.
                        if x = k * P * AngTot + i * P + j then val (w k i j) else 0)
                else 0) = 0"
    by (intro sum.neutral ballI) simp
  then show ?thesis by (simp add: loops_sum)
qed

lemma single_writes_in_bounds:
  assumes "N * P * AngTot \<le> x"
  shows "array_of (buildSino3D_core_single A N P Th AngTot CenTypeIn q a1 b1) x = A x"
proof (cases "prm_Object q" rule: object_cases)
  case 1
  show ?thesis unfolding single_gauss [OF 1] by (rule loops_outside [OF assms])
next
  case 2
  show ?thesis unfolding single_parabola [OF 2] by (rule loops_outside [OF assms])
next
  case 3
  show ?thesis unfolding single_disk [OF 3] by (rule loops_outside [OF assms])
next
  case 4
  show ?thesis unfolding single_parabola1 [OF 4] by (rule loops_outside [OF assms])
next
  case 5
  show ?thesis unfolding single_cone [OF 5] by (rule loops_outside [OF assms])
next
  case 6
  show ?thesis unfolding single_rect [OF 6] by (rule loops_outside [OF assms])
next
  case 7
  show ?thesis unfolding single_unknown [OF 7] by (simp add: array_of_def)
qed

lemma step_additive:
  "fst (component_step N P Th AngTot CenTypeIn chk cp (A, out)) x =
     A x + fst (component_step N P Th AngTot CenTypeIn chk cp (\<lambda>_. 0, out')) x"
proof -
  obtain q a1 b1 where cp: "cp = (q, a1, b1)" by (cases cp)
  have "fst (snd r) = array_of r" for r :: "real \<times> buffer \<times> diag list"
    by (simp add: array_of_def)
  then show ?thesis
    using single_additive [of A N P Th AngTot CenTypeIn q a1 b1 x]
    by (simp add: component_step_def cp split_beta array_of_def)
qed

lemma fold_step_additive:
  "fst (fold (component_step N P Th AngTot CenTypeIn chk) comps (A, out)) x =
     A x + (\<Sum>cp\<leftarrow>comps. fst (component_step N P Th AngTot CenTypeIn chk cp (\<lambda>_. 0, [])) x)"
proof (induction comps arbitrary: A out)
  case Nil
  show ?case by simp
next
  case (Cons cp comps)
  obtain A' out' where s: "component_step N P Th AngTot CenTypeIn chk cp (A, out) = (A', out')"
    by (cases "component_step N P Th AngTot CenTypeIn chk cp (A, out)")
  have "A' x = A x + fst (component_step N P Th AngTot CenTypeIn chk cp (\<lambda>_. 0, [])) x"
    using step_additive [of N P Th AngTot CenTypeIn chk cp A out x "[]"] by (simp add: s)
  then show ?case by (simp add: s Cons.IH)
qed

lemma array_of_core:
  "array_of (buildSino3D_core A N P Th AngTot CenTypeIn chk comps) =
     fst (fold (component_step N P Th AngTot CenTypeIn chk) comps (A, []))"
  by (simp add: buildSino3D_core_def array_of_def split_beta)

section \<open>Superposition\<close>

text \<open>
  Claim C2.  Every kernel changes the array by \<^verbatim>\<open>+=\<close> only: the array left by
  \<^verbatim>\<open>buildSino3D_core_single\<close> is, cell by cell, the array it was given plus what the
  same call leaves in a zero array.  Hence for every initial array and every sequence
  of components, each cell of the array left by \<^verbatim>\<open>buildSino3D_core\<close> is its initial
  value plus the sum, over the components, of what each component alone leaves in a
  zero array; in particular the model of two components \<open>cA\<close>, \<open>cB\<close> run on a zero
  array gives the cell-wise sum of the two models of one component.
\<close>

theorem superposition:
  "array_of (buildSino3D_core_single A N P Th AngTot CenTypeIn q a1 b1) x =
     A x + array_of (buildSino3D_core_single (\<lambda>_. 0) N P Th AngTot CenTypeIn q a1 b1) x
   \<and> array_of (buildSino3D_core A N P Th AngTot CenTypeIn chk comps) x =
     A x + (\<Sum>cp\<leftarrow>comps.
              array_of (buildSino3D_core (\<lambda>_. 0) N P Th AngTot CenTypeIn chk [cp]) x)
   \<and> array_of (buildSino3D_core (\<lambda>_. 0) N P Th AngTot CenTypeIn chk [cA, cB]) x =
     array_of (buildSino3D_core (\<lambda>_. 0) N P Th AngTot CenTypeIn chk [cA]) x
     + array_of (buildSino3D_core (\<lambda>_. 0) N P Th AngTot CenTypeIn chk [cB]) x"
proof (intro conjI)
  show "array_of (buildSino3D_core_single A N P Th AngTot CenTypeIn q a1 b1) x =
     A x + array_of (buildSino3D_core_single (\<lambda>_. 0) N P Th AngTot CenTypeIn q a1 b1) x"
    by (rule single_additive)
  have seq: "array_of (buildSino3D_core B N P Th AngTot CenTypeIn chk cs) x =
     B x + (\<Sum>cp\<leftarrow>cs.
              array_of (buildSino3D_core (\<lambda>_. 0) N P Th AngTot CenTypeIn chk [cp]) x)"
    for B cs
    by (simp add: array_of_core fold_step_additive)
  show "array_of (buildSino3D_core A N P Th AngTot CenTypeIn chk comps) x =
     A x + (\<Sum>cp\<leftarrow>comps.
              array_of (buildSino3D_core (\<lambda>_. 0) N P Th AngTot CenTypeIn chk [cp]) x)"
    by (rule seq)
  show "array_of (buildSino3D_core (\<lambda>_. 0) N P Th AngTot CenTypeIn chk [cA, cB]) x =
     array_of (buildSino3D_core (\<lambda>_. 0) N P Th AngTot CenTypeIn chk [cA]) x
     + array_of (buildSino3D_core (\<lambda>_. 0) N P Th AngTot CenTypeIn chk [cB]) x"
    by (subst seq) simp
qed

section \<open>The grid arrays\<close>

lemma Sinorange_P_Ar_nth:
  "j < P \<Longrightarrow> Sinorange_P_Ar N P ! j = Sinorange_Pmax N P - real j * H_p N P"
  by (simp add: Sinorange_P_Ar_def)

lemma Tomorange_X_Ar_nth:
  "i < N \<Longrightarrow> Tomorange_X_Ar N ! i = - 1 + real i * H_x N"
  by (simp add: Tomorange_X_Ar_def)

lemma AnglesRad_nth:
  "i < AngTot \<Longrightarrow> AnglesRad Th AngTot ! i = Th ! i * (pi / 180)"
  by (simp add: AnglesRad_def)

lemma Zdel_nth:
  "k < N \<Longrightarrow> Zdel N z0 ! k = - 1 + real k * H_x N - z0"
  by (simp add: Zdel_def Tomorange_X_Ar_nth)

lemma Zdel2_nth:
  "k < N \<Longrightarrow> Zdel2 N Object c z0 ! k = c2_of Object c * (Zdel N z0 ! k)\<^sup>2"
  by (simp add: Zdel2_def)

lemma H_p_eq:
  "H_p N P = 2 * (real P / real (N + 1)) / (real P - 1)"
  by (simp add: H_p_def Sinorange_Pmin_def Sinorange_Pmax_def)

lemma H_p_pos:
  assumes "1 < P"
  shows "0 < H_p N P"
  using assms by (simp add: H_p_eq)

subsection \<open>The concrete inputs on the grid \<open>N = 2\<close>, \<open>P = 2\<close>\<close>

lemma grid_2_2:
  "Zdel 2 z0 ! 0 = - 1 - z0"
  "Zdel 2 z0 ! Suc 0 = - z0"
  "Sinorange_P_Ar 2 2 ! 0 = 2 / 3"
  "Sinorange_P_Ar 2 2 ! Suc 0 = - (2 / 3)"
  "H_x 2 = 1"
  by (simp_all add: Zdel_nth H_x_def Sinorange_P_Ar_nth Sinorange_Pmax_def H_p_eq)

lemma rect_example_facts:
  "prm_Object rect_example = 6" "prm_C0 rect_example = 1" "prm_x0 rect_example = - (1 / 3)"
  "prm_y0 rect_example = 0" "prm_z0 rect_example = 0" "prm_a rect_example = 1"
  "prm_b rect_example = 1 / 2" "prm_c rect_example = 1" "prm_psi_gr1 rect_example = 0"
  by (simp_all add: rect_example_def)

lemma small_disk_example_facts:
  "prm_Object small_disk_example = 3" "prm_C0 small_disk_example = 1"
  "prm_x0 small_disk_example = - 1" "prm_y0 small_disk_example = 0"
  "prm_z0 small_disk_example = 0" "prm_a small_disk_example = 1 / 2"
  "prm_b small_disk_example = 1 / 2" "prm_c small_disk_example = 1"
  "prm_psi_gr1 small_disk_example = 0"
  by (simp_all add: small_disk_example_def)

lemma disk_example_facts:
  "prm_Object disk_example = 3" "prm_C0 disk_example = 1"
  "prm_x0 disk_example = - 1" "prm_y0 disk_example = 0"
  "prm_z0 disk_example = - (1 / 2)" "prm_a disk_example = 1"
  "prm_b disk_example = 1" "prm_c disk_example = 1"
  "prm_psi_gr1 disk_example = 0"
  by (simp_all add: disk_example_def)

lemma slice_example_facts:
  "prm_Object (slice_example obj c) = obj" "prm_C0 (slice_example obj c) = 1"
  "prm_x0 (slice_example obj c) = - (1 / 3)" "prm_y0 (slice_example obj c) = 0"
  "prm_z0 (slice_example obj c) = - (1 / 2)" "prm_a (slice_example obj c) = 1"
  "prm_b (slice_example obj c) = 1" "prm_c (slice_example obj c) = c"
  "prm_psi_gr1 (slice_example obj c) = 0"
  by (simp_all add: slice_example_def)

lemma parabola1_example_facts:
  "prm_Object parabola1_example = 4" "prm_C0 parabola1_example = 1"
  "prm_x0 parabola1_example = - (1 / 3)" "prm_y0 parabola1_example = 0"
  "prm_z0 parabola1_example = - (1 / 2)" "prm_a parabola1_example = 1"
  "prm_b parabola1_example = 1" "prm_c parabola1_example = 3 / 4"
  "prm_psi_gr1 parabola1_example = 0"
  by (simp_all add: parabola1_example_def)

lemma gauss_example_facts:
  "prm_Object gauss_example = 1" "prm_C0 gauss_example = 1"
  "prm_x0 gauss_example = - (1 / 3)" "prm_y0 gauss_example = 0"
  "prm_z0 gauss_example = 0" "prm_a gauss_example = 1"
  "prm_b gauss_example = 1" "prm_c gauss_example = 1"
  "prm_psi_gr1 gauss_example = 0"
  by (simp_all add: gauss_example_def)

subsection \<open>The arrays of the grid builder\<close>

text \<open>
  Claim C7.  For \<open>N > 0\<close> and \<open>P > 1\<close>: the detector offsets are \<open>P\<close> values
  \<open>P/(N+1) - j * H_p\<close> with \<open>H_p = 2 * (P/(N+1)) / (P - 1)\<close>, the first is \<open>P/(N+1)\<close>, the
  last is \<open>- P/(N+1)\<close>, they are symmetric about zero and strictly descending; the
  spatial coordinates are the \<open>N\<close> values \<open>-1 + i * (2/N)\<close>, all in \<open>[-1, 1)\<close>; the angles
  in radians are the \<open>AngTot\<close> values \<open>Th[i] * pi / 180\<close>, in the order of the input.
\<close>

theorem grid_builder:
  assumes "0 < N" and "1 < P"
  shows "length (Sinorange_P_Ar N P) = P
    \<and> (\<forall>j<P. Sinorange_P_Ar N P ! j =
           real P / real (N + 1) - real j * (2 * (real P / real (N + 1)) / (real P - 1)))
    \<and> Sinorange_P_Ar N P ! 0 = real P / real (N + 1)
    \<and> Sinorange_P_Ar N P ! (P - 1) = - (real P / real (N + 1))
    \<and> (\<forall>j<P. Sinorange_P_Ar N P ! (P - 1 - j) = - (Sinorange_P_Ar N P ! j))
    \<and> (\<forall>j j'. j < j' \<and> j' < P \<longrightarrow> Sinorange_P_Ar N P ! j' < Sinorange_P_Ar N P ! j)
    \<and> length (Tomorange_X_Ar N) = N
    \<and> (\<forall>i<N. Tomorange_X_Ar N ! i = - 1 + real i * (2 / real N))
    \<and> (\<forall>i<N. - 1 \<le> Tomorange_X_Ar N ! i \<and> Tomorange_X_Ar N ! i < 1)
    \<and> length (AnglesRad Th AngTot) = AngTot
    \<and> (\<forall>i<AngTot. AnglesRad Th AngTot ! i = Th ! i * pi / 180)"
proof (intro conjI allI impI)
  have P1: "real P - 1 \<noteq> 0" using assms by simp
  show "length (Sinorange_P_Ar N P) = P" by (simp add: Sinorange_P_Ar_def)
  show "Sinorange_P_Ar N P ! j =
           real P / real (N + 1) - real j * (2 * (real P / real (N + 1)) / (real P - 1))"
    if "j < P" for j
    using that by (simp add: Sinorange_P_Ar_nth H_p_eq Sinorange_Pmax_def)
  show "Sinorange_P_Ar N P ! 0 = real P / real (N + 1)"
    using assms by (simp add: Sinorange_P_Ar_nth Sinorange_Pmax_def)
  have "(real P - 1) * H_p N P = 2 * Sinorange_Pmax N P"
    using P1 by (simp add: H_p_eq Sinorange_Pmax_def)
  moreover have "real (P - 1) = real P - 1"
    using assms by (simp add: of_nat_diff)
  ultimately have last: "real (P - 1) * H_p N P = 2 * Sinorange_Pmax N P"
    by simp
  show "Sinorange_P_Ar N P ! (P - 1) = - (real P / real (N + 1))"
  proof -
    have "P - 1 < P" using assms by simp
    then have "Sinorange_P_Ar N P ! (P - 1) = Sinorange_Pmax N P - real (P - 1) * H_p N P"
      by (rule Sinorange_P_Ar_nth)
    also have "\<dots> = - Sinorange_Pmax N P" using last by simp
    finally show ?thesis by (simp add: Sinorange_Pmax_def)
  qed
  show "Sinorange_P_Ar N P ! (P - 1 - j) = - (Sinorange_P_Ar N P ! j)" if "j < P" for j
  proof -
    have e: "real (P - 1 - j) = real (P - 1) - real j" using that by (simp add: of_nat_diff)
    have "real (P - 1 - j) * H_p N P = real (P - 1) * H_p N P - real j * H_p N P"
      by (simp only: e left_diff_distrib)
    also have "\<dots> = 2 * Sinorange_Pmax N P - real j * H_p N P"
      by (simp only: last)
    finally have f: "real (P - 1 - j) * H_p N P = 2 * Sinorange_Pmax N P - real j * H_p N P" .
    have "P - 1 - j < P" using that by simp
    then have "Sinorange_P_Ar N P ! (P - 1 - j) =
        Sinorange_Pmax N P - real (P - 1 - j) * H_p N P"
      by (rule Sinorange_P_Ar_nth)
    also have "\<dots> = - (Sinorange_Pmax N P - real j * H_p N P)"
      using f by simp
    also have "\<dots> = - (Sinorange_P_Ar N P ! j)"
      using that by (simp only: Sinorange_P_Ar_nth)
    finally show ?thesis .
  qed
  show "Sinorange_P_Ar N P ! j' < Sinorange_P_Ar N P ! j" if "j < j' \<and> j' < P" for j j'
    using that H_p_pos [OF assms(2), of N] by (simp add: Sinorange_P_Ar_nth)
  show "length (Tomorange_X_Ar N) = N" by (simp add: Tomorange_X_Ar_def)
  show "Tomorange_X_Ar N ! i = - 1 + real i * (2 / real N)" if "i < N" for i
    using that by (simp add: Tomorange_X_Ar_nth H_x_def)
  show "- 1 \<le> Tomorange_X_Ar N ! i" if "i < N" for i
    using that by (simp add: Tomorange_X_Ar_nth H_x_def)
  show "Tomorange_X_Ar N ! i < 1" if "i < N" for i
  proof -
    have "real i * 2 < real N * 2" using that by simp
    then have "real i * (2 / real N) < 2" using assms(1) by (simp add: field_simps)
    then show ?thesis using that by (simp add: Tomorange_X_Ar_nth H_x_def)
  qed
  show "length (AnglesRad Th AngTot) = AngTot" by (simp add: AnglesRad_def)
  show "AnglesRad Th AngTot ! i = Th ! i * pi / 180" if "i < AngTot" for i
    using that by (simp add: AnglesRad_nth)
qed

theorem grid_builder_witness:
  "(0::nat) < 4 \<and> (1::nat) < 3
   \<and> length (Sinorange_P_Ar 4 3) = 3
   \<and> Sinorange_P_Ar 4 3 ! 0 = 3 / 5
   \<and> Sinorange_P_Ar 4 3 ! 1 = 0
   \<and> Sinorange_P_Ar 4 3 ! 2 = - (3 / 5)
   \<and> length (Tomorange_X_Ar 4) = 4
   \<and> Tomorange_X_Ar 4 ! 3 = 1 / 2
   \<and> length (AnglesRad [0, 90] 2) = 2
   \<and> AnglesRad [0, 90] 2 ! 1 = pi / 2"
proof -
  have h: "(0::nat) < 4" "(1::nat) < 3" by simp_all
  note g = grid_builder [OF h, of "[0, 90]" 2]
  from g have a: "\<forall>j<3. Sinorange_P_Ar 4 3 ! j = 3 / 5 - real j * (3 / 5)"
    by simp
  from g have b: "\<forall>i<4. Tomorange_X_Ar 4 ! i = - 1 + real i * (1 / 2)"
    by simp
  from g have c: "\<forall>i<2. AnglesRad [0, 90] 2 ! i = [0, 90] ! i * pi / 180"
    by simp
  from g have d: "length (Sinorange_P_Ar 4 3) = 3" "length (Tomorange_X_Ar 4) = 4"
    "length (AnglesRad [0, 90] 2) = 2"
    by simp_all
  show ?thesis
    using a [rule_format, of 0] a [rule_format, of 1] a [rule_format, of 2]
      b [rule_format, of 3] c [rule_format, of 1] d
    by simp
qed

section \<open>The centring convention\<close>

text \<open>
  Claim C8.  The grid arrays \<open>Sinorange_P_Ar N P\<close>, \<open>Tomorange_X_Ar N\<close> and
  \<open>AnglesRad Th AngTot\<close> are computed before \<^verbatim>\<open>CenTypeIn\<close> is read and take no
  convention.  \<^verbatim>\<open>CenTypeIn\<close> selects the offset added to the centre of the object: the
  full step \<open>H_x N\<close> for the value 0, the half step \<open>H_x N / 2\<close> for every other value,
  and the two differ when \<open>N > 0\<close>.  Nothing else depends on it: a call under
  convention 0 is the call under the other convention with the declared centre moved
  by the difference of the two offsets (half a step; for the rectangle, which doubles
  the centre before it adds the offset, a quarter of a step).
\<close>

theorem centring_convention:
  assumes "0 < N" and "c \<noteq> 0"
  shows "centre_xy 0 N x0 y0 = (x0 + H_x N, y0 + H_x N)
    \<and> centre_xy c N x0 y0 = (x0 + H_x N / 2, y0 + H_x N / 2)
    \<and> centre_rect 0 N x0 y0 = (- 2 * y0 - H_x N, 2 * x0 + H_x N)
    \<and> centre_rect c N x0 y0 = (- 2 * y0 - H_x N / 2, 2 * x0 + H_x N / 2)
    \<and> H_x N \<noteq> H_x N / 2
    \<and> (prm_Object q \<noteq> 6 \<longrightarrow>
         buildSino3D_core_single A N P Th AngTot 0 q a1 b1 =
         buildSino3D_core_single A N P Th AngTot c
           (q\<lparr>prm_x0 := prm_x0 q + H_x N / 2, prm_y0 := prm_y0 q + H_x N / 2\<rparr>) a1 b1)
    \<and> (prm_Object q = 6 \<longrightarrow>
         buildSino3D_core_single A N P Th AngTot 0 q a1 b1 =
         buildSino3D_core_single A N P Th AngTot c
           (q\<lparr>prm_x0 := prm_x0 q + H_x N / 4, prm_y0 := prm_y0 q + H_x N / 4\<rparr>) a1 b1)"
proof (intro conjI impI)
  show "centre_xy 0 N x0 y0 = (x0 + H_x N, y0 + H_x N)"
    by (simp add: centre_xy_def)
  show "centre_xy c N x0 y0 = (x0 + H_x N / 2, y0 + H_x N / 2)"
    using assms by (simp add: centre_xy_def)
  show "centre_rect 0 N x0 y0 = (- 2 * y0 - H_x N, 2 * x0 + H_x N)"
    by (simp add: centre_rect_def)
  show "centre_rect c N x0 y0 = (- 2 * y0 - H_x N / 2, 2 * x0 + H_x N / 2)"
    using assms by (simp add: centre_rect_def)
  show "H_x N \<noteq> H_x N / 2"
    using assms by (simp add: H_x_def)
  have xy: "centre_xy 0 N u v = centre_xy c N (u + H_x N / 2) (v + H_x N / 2)" for u v
    using assms by (simp add: centre_xy_def)
  have re: "centre_rect 0 N u v = centre_rect c N (u + H_x N / 4) (v + H_x N / 4)" for u v
    using assms by (simp add: centre_rect_def)
  show "buildSino3D_core_single A N P Th AngTot 0 q a1 b1 =
         buildSino3D_core_single A N P Th AngTot c
           (q\<lparr>prm_x0 := prm_x0 q + H_x N / 2, prm_y0 := prm_y0 q + H_x N / 2\<rparr>) a1 b1"
    if "prm_Object q \<noteq> 6"
    using that by (simp add: buildSino3D_core_single_def xy Let_def split_beta cong: if_cong)
  show "buildSino3D_core_single A N P Th AngTot 0 q a1 b1 =
         buildSino3D_core_single A N P Th AngTot c
           (q\<lparr>prm_x0 := prm_x0 q + H_x N / 4, prm_y0 := prm_y0 q + H_x N / 4\<rparr>) a1 b1"
    if "prm_Object q = 6"
    using that by (simp add: buildSino3D_core_single_def re Let_def split_beta cong: if_cong)
qed

theorem centring_convention_witness:
  "(0::nat) < 2 \<and> (1::int) \<noteq> 0
   \<and> centre_xy 0 2 0 0 = (1, 1)
   \<and> centre_xy 1 2 0 0 = (1 / 2, 1 / 2)
   \<and> centre_rect 0 2 0 0 = (- 1, 1)
   \<and> centre_rect 1 2 0 0 = (- (1 / 2), 1 / 2)
   \<and> H_x 2 \<noteq> H_x 2 / 2
   \<and> prm_Object disk_example \<noteq> 6
   \<and> buildSino3D_core_single zeros 2 2 [0] 1 0 disk_example 0 0 =
      buildSino3D_core_single zeros 2 2 [0] 1 1
        (disk_example\<lparr>prm_x0 := prm_x0 disk_example + 1 / 2,
                       prm_y0 := prm_y0 disk_example + 1 / 2\<rparr>) 0 0
   \<and> prm_Object rect_example = 6
   \<and> buildSino3D_core_single zeros 2 2 [0] 1 0 rect_example 0 0 =
      buildSino3D_core_single zeros 2 2 [0] 1 1
        (rect_example\<lparr>prm_x0 := prm_x0 rect_example + 1 / 4,
                       prm_y0 := prm_y0 rect_example + 1 / 4\<rparr>) 0 0"
proof -
  have h: "(0::nat) < 2" "(1::int) \<noteq> 0" by simp_all
  have H: "H_x 2 = 1" by (simp add: H_x_def)
  note d = centring_convention [OF h, where ?x0.0 = 0 and ?y0.0 = 0 and q = disk_example
      and A = zeros and P = 2 and Th = "[0]" and AngTot = 1 and ?a1.0 = 0 and ?b1.0 = 0]
  note r = centring_convention [OF h, where ?x0.0 = 0 and ?y0.0 = 0 and q = rect_example
      and A = zeros and P = 2 and Th = "[0]" and AngTot = 1 and ?a1.0 = 0 and ?b1.0 = 0]
  show ?thesis
    using d r by (simp add: H disk_example_facts rect_example_facts)
qed

section \<open>The rectangle at projection angle 0 and rotation 0\<close>

lemma rect_SS_axis_aligned:
  "rect_SS C0 xwid ywid x11 y11 0 0 p = (if \<bar>p - y11\<bar> < ywid / 2 then xwid * C0 else 0)"
  by (auto simp add: rect_SS_def Let_def EPS_def)

lemma single_rect_cell:
  assumes "prm_Object q = 6" and "k < N" and "i < AngTot" and "j < P"
  shows "array_of (buildSino3D_core_single A N P Th AngTot CenTypeIn q a1 b1)
           (k * P * AngTot + i * P + j) =
         A (k * P * AngTot + i * P + j) +
         (if \<bar>Zdel N (prm_z0 q) ! k\<bar> < 0.5 * prm_c q
          then (real N / 2) *
                 rect_SS (prm_C0 q) (prm_b q) (prm_a q)
                   (fst (centre_rect CenTypeIn N (prm_x0 q) (prm_y0 q)))
                   (snd (centre_rect CenTypeIn N (prm_x0 q) (prm_y0 q)))
                   (if prm_psi_gr1 q * (pi / 180) < 0 then pi + prm_psi_gr1 q * (pi / 180)
                    else prm_psi_gr1 q * (pi / 180))
                   (AnglesRad Th AngTot ! ((AngTot - 1) - i)) (Sinorange_P_Ar N P ! j)
          else 0)"
  unfolding single_rect [OF assms(1)]
  by (simp only: loops_cell [OF assms(2-4)] val_def option.case)

text \<open>
  Claim C5, as amended.  For a rectangle with rotation 0, at an output row \<open>i\<close> whose
  angle read (\<open>Th[AngTot-1-i]\<close>) is 0: let \<open>XSYC\<close> be \<^verbatim>\<open>y11\<close>, that is \<open>2*x0 + H_x\<close> under
  convention 0 and \<open>2*x0 + H_x/2\<close> otherwise.  On a slice inside the slab
  (\<open>|Zdel[k]| < c/2\<close>) a detector cell with \<open>|p - XSYC| < a/2\<close> receives \<open>(N/2) * b * C0\<close>;
  a detector cell with \<open>|p - XSYC| \<ge> a/2\<close> (the chord entry \<^verbatim>\<open>PC\<close> is not below \<^verbatim>\<open>QP\<close>)
  receives nothing; a slice outside the slab receives nothing.  The half-width of the
  plateau is half of the extent \<open>a\<close>, its height is the other extent \<open>b\<close> times the
  intensity times \<open>N/2\<close>.
\<close>

theorem rectangle_flat_top:
  assumes "prm_Object q = 6" and "k < N" and "i < AngTot" and "j < P"
    and "prm_psi_gr1 q = 0" and "Th ! (AngTot - 1 - i) = 0"
  shows "(\<bar>Zdel N (prm_z0 q) ! k\<bar> < 0.5 * prm_c q
          \<and> \<bar>Sinorange_P_Ar N P ! j - snd (centre_rect CenTypeIn N (prm_x0 q) (prm_y0 q))\<bar>
              < prm_a q / 2
          \<longrightarrow> array_of (buildSino3D_core_single A N P Th AngTot CenTypeIn q a1 b1)
                (k * P * AngTot + i * P + j) =
              A (k * P * AngTot + i * P + j) + (real N / 2) * (prm_b q * prm_C0 q))
    \<and> (prm_a q / 2
          \<le> \<bar>Sinorange_P_Ar N P ! j - snd (centre_rect CenTypeIn N (prm_x0 q) (prm_y0 q))\<bar>
          \<longrightarrow> array_of (buildSino3D_core_single A N P Th AngTot CenTypeIn q a1 b1)
                (k * P * AngTot + i * P + j) =
              A (k * P * AngTot + i * P + j))
    \<and> (0.5 * prm_c q \<le> \<bar>Zdel N (prm_z0 q) ! k\<bar>
          \<longrightarrow> array_of (buildSino3D_core_single A N P Th AngTot CenTypeIn q a1 b1)
                (k * P * AngTot + i * P + j) =
              A (k * P * AngTot + i * P + j))"
proof -
  have "AngTot - 1 - i < AngTot" using assms(3) by simp
  then have ang: "AnglesRad Th AngTot ! ((AngTot - 1) - i) = 0"
    using assms(6) by (simp add: AnglesRad_nth)
  have cell: "array_of (buildSino3D_core_single A N P Th AngTot CenTypeIn q a1 b1)
           (k * P * AngTot + i * P + j) =
         A (k * P * AngTot + i * P + j) +
         (if \<bar>Zdel N (prm_z0 q) ! k\<bar> < 0.5 * prm_c q
          then (real N / 2) *
                 (if \<bar>Sinorange_P_Ar N P ! j
                       - snd (centre_rect CenTypeIn N (prm_x0 q) (prm_y0 q))\<bar> < prm_a q / 2
                  then prm_b q * prm_C0 q else 0)
          else 0)"
    by (simp only: single_rect_cell [OF assms(1-4)] assms(5) ang rect_SS_axis_aligned
        mult_zero_left less_irrefl if_False)
  show ?thesis
    unfolding cell by auto
qed

theorem rectangle_flat_top_witness:
  "prm_Object rect_example = 6 \<and> (1::nat) < 2 \<and> (0::nat) < 2 \<and> (0::nat) < 1
   \<and> (0::nat) < 2 \<and> (1::nat) < 2
   \<and> prm_psi_gr1 rect_example = 0 \<and> [0::real] ! (1 - 1 - 0) = 0
   \<and> \<bar>Zdel 2 (prm_z0 rect_example) ! 1\<bar> < 0.5 * prm_c rect_example
   \<and> \<bar>Sinorange_P_Ar 2 2 ! 0 - snd (centre_rect 0 2 (prm_x0 rect_example) (prm_y0 rect_example))\<bar>
       < prm_a rect_example / 2
   \<and> array_of (buildSino3D_core_single zeros 2 2 [0] 1 0 rect_example 0 0) 2 = 1 / 2
   \<and> prm_a rect_example / 2
       \<le> \<bar>Sinorange_P_Ar 2 2 ! 1 - snd (centre_rect 0 2 (prm_x0 rect_example) (prm_y0 rect_example))\<bar>
   \<and> array_of (buildSino3D_core_single zeros 2 2 [0] 1 0 rect_example 0 0) 3 = 0
   \<and> 0.5 * prm_c rect_example \<le> \<bar>Zdel 2 (prm_z0 rect_example) ! 0\<bar>
   \<and> array_of (buildSino3D_core_single zeros 2 2 [0] 1 0 rect_example 0 0) 0 = 0"
proof -
  have o: "prm_Object rect_example = 6" by (simp add: rect_example_facts)
  have n: "(1::nat) < 2" "(0::nat) < 2" "(0::nat) < 1" by simp_all
  have a: "prm_psi_gr1 rect_example = 0" "[0::real] ! (1 - 1 - 0) = 0"
    by (simp_all add: rect_example_facts)
  note inside = rectangle_flat_top [OF o n(1) n(3) n(2) a, where CenTypeIn = 0 and A = zeros
      and ?a1.0 = 0 and ?b1.0 = 0]
  note outside = rectangle_flat_top [OF o n(1) n(3) n(1) a, where CenTypeIn = 0 and A = zeros
      and ?a1.0 = 0 and ?b1.0 = 0]
  note slab = rectangle_flat_top [OF o n(2) n(3) n(2) a, where CenTypeIn = 0 and A = zeros
      and ?a1.0 = 0 and ?b1.0 = 0]
  show ?thesis
    using inside outside slab
    by (simp add: rect_example_facts grid_2_2 centre_rect_def zeros_def)
qed

text \<open>
  Claim C5 as stated (one width for both the interval and the height) fails on
  \<open>rect_example\<close>, where \<open>a = 1\<close>, \<open>b = 1/2\<close>, \<open>C0 = 1\<close> and \<open>N = 2\<close>: the cell at distance
  \<open>1/3\<close> from the projected centre receives \<open>1/2\<close>.  With \<open>a\<close> as the width the cell is
  inside \<open>\<plusminus>a/2\<close> and should receive \<open>a * C0 = 1\<close>; with \<open>b\<close> as the width it is outside
  \<open>\<plusminus>b/2\<close> and should receive 0.
\<close>

theorem rectangle_flat_top_counterexample:
  "array_of (buildSino3D_core_single zeros 2 2 [0] 1 0 rect_example 0 0) 2 = 1 / 2
   \<and> \<bar>Zdel 2 (prm_z0 rect_example) ! 1\<bar> < 0.5 * prm_c rect_example
   \<and> \<bar>Sinorange_P_Ar 2 2 ! 0 - snd (centre_rect 0 2 (prm_x0 rect_example) (prm_y0 rect_example))\<bar>
       = 1 / 3
   \<and> 1 / 3 \<le> prm_a rect_example / 2
   \<and> prm_a rect_example * prm_C0 rect_example = 1
   \<and> prm_b rect_example / 2 < 1 / 3
   \<and> prm_b rect_example * prm_C0 rect_example = 1 / 2"
proof -
  have "array_of (buildSino3D_core_single zeros 2 2 [0] 1 0 rect_example 0 0)
          (1 * 2 * 1 + 0 * 2 + 0) = 1 / 2"
    by (subst single_rect_cell)
       (simp_all add: rect_example_facts AnglesRad_nth rect_SS_axis_aligned grid_2_2
          centre_rect_def zeros_def)
  then show ?thesis
    by (simp add: rect_example_facts grid_2_2 centre_rect_def)
qed

section \<open>Unknown shape tags\<close>

lemma step_unknown:
  assumes "prm_Object q < 1 \<or> 6 < prm_Object q"
    and "chk (prm_C0 q) (prm_x0 q) (prm_y0 q) (prm_z0 q) (prm_a q) (prm_b q) (prm_c q) = 0"
  shows "component_step N P Th AngTot CenTypeIn chk (q, a1, b1) (A, out) =
           (A, out @ [No_such_object])"
  using assms(2) by (simp add: component_step_def single_unknown [OF assms(1)])

text \<open>The diagnostics accumulate; the array does not depend on them.\<close>

lemma step_out:
  "component_step N P Th AngTot CenTypeIn chk cp (A, out) =
     (fst (component_step N P Th AngTot CenTypeIn chk cp (A, [])),
      out @ snd (component_step N P Th AngTot CenTypeIn chk cp (A, [])))"
  by (cases cp) (simp add: component_step_def split_beta Let_def)

lemma fold_step_out:
  "fold (component_step N P Th AngTot CenTypeIn chk) comps (A, out) =
     (fst (fold (component_step N P Th AngTot CenTypeIn chk) comps (A, [])),
      out @ snd (fold (component_step N P Th AngTot CenTypeIn chk) comps (A, [])))"
proof (induction comps arbitrary: A out)
  case Nil
  show ?case by simp
next
  case (Cons cp comps)
  let ?s = "component_step N P Th AngTot CenTypeIn chk"
  obtain A' ds where s: "?s cp (A, []) = (A', ds)" by (cases "?s cp (A, [])")
  have s': "?s cp (A, out) = (A', out @ ds)"
    by (subst step_out) (simp add: s)
  have "fold ?s (cp # comps) (A, out) = fold ?s comps (A', out @ ds)"
    by (simp add: s')
  also have "\<dots> = (fst (fold ?s comps (A', [])), (out @ ds) @ snd (fold ?s comps (A', [])))"
    by (rule Cons.IH)
  also have "\<dots> = (fst (fold ?s comps (A', ds)), out @ snd (fold ?s comps (A', ds)))"
    by (subst (3 4) Cons.IH) simp
  also have "\<dots> = (fst (fold ?s (cp # comps) (A, [])), out @ snd (fold ?s (cp # comps) (A, [])))"
    by (simp add: s)
  finally show ?case .
qed

lemma diags_of_core:
  "diags_of (buildSino3D_core A N P Th AngTot CenTypeIn chk comps) =
     snd (fold (component_step N P Th AngTot CenTypeIn chk) comps (A, []))"
  by (simp add: buildSino3D_core_def diags_of_def split_beta)

text \<open>
  Claim C1, as amended.  For a component whose shape tag is outside 1..6 and that the
  validator accepts, \<^verbatim>\<open>buildSino3D_core_single\<close> prints \<^verbatim>\<open>No such object exist!\<close>, returns 0
  and leaves the array as it was; \<^verbatim>\<open>buildSino3D_core\<close> drops the returned value and goes
  on with the components that follow: the array it leaves is the array of the model
  without that component, and the diagnostics are those of the components before it,
  the one \<^verbatim>\<open>No such object exist!\<close>, and those of the components after it.  The value
  returned is, as for every model, the first cell of the array: no failure status is
  returned.
\<close>

theorem unknown_shape_is_skipped:
  assumes "prm_Object q < 1 \<or> 6 < prm_Object q"
    and "chk (prm_C0 q) (prm_x0 q) (prm_y0 q) (prm_z0 q) (prm_a q) (prm_b q) (prm_c q) = 0"
  shows "buildSino3D_core_single A N P Th AngTot CenTypeIn q a1 b1 = (0, A, [No_such_object])
    \<and> array_of (buildSino3D_core A N P Th AngTot CenTypeIn chk (pre @ (q, a1, b1) # post)) =
      array_of (buildSino3D_core A N P Th AngTot CenTypeIn chk (pre @ post))
    \<and> diags_of (buildSino3D_core A N P Th AngTot CenTypeIn chk (pre @ (q, a1, b1) # post)) =
      diags_of (buildSino3D_core A N P Th AngTot CenTypeIn chk pre) @ No_such_object #
      diags_of (buildSino3D_core
                  (array_of (buildSino3D_core A N P Th AngTot CenTypeIn chk pre))
                  N P Th AngTot CenTypeIn chk post)
    \<and> fst (buildSino3D_core A N P Th AngTot CenTypeIn chk (pre @ (q, a1, b1) # post)) =
      array_of (buildSino3D_core A N P Th AngTot CenTypeIn chk (pre @ (q, a1, b1) # post)) 0"
proof (intro conjI)
  show "fst (buildSino3D_core A N P Th AngTot CenTypeIn chk (pre @ (q, a1, b1) # post)) =
      array_of (buildSino3D_core A N P Th AngTot CenTypeIn chk (pre @ (q, a1, b1) # post)) 0"
    by (simp add: buildSino3D_core_def array_of_def split_beta)
next
  let ?s = "component_step N P Th AngTot CenTypeIn chk"
  show "buildSino3D_core_single A N P Th AngTot CenTypeIn q a1 b1 = (0, A, [No_such_object])"
    by (rule single_unknown [OF assms(1)])
  obtain B ds where pre: "fold ?s pre (A, []) = (B, ds)" by (cases "fold ?s pre (A, [])")
  have all: "fold ?s (pre @ (q, a1, b1) # post) (A, []) = fold ?s post (B, ds @ [No_such_object])"
    by (simp add: pre step_unknown [where chk = chk, OF assms])
  have without: "fold ?s (pre @ post) (A, []) = fold ?s post (B, ds)"
    by (simp add: pre)
  show "array_of (buildSino3D_core A N P Th AngTot CenTypeIn chk (pre @ (q, a1, b1) # post)) =
      array_of (buildSino3D_core A N P Th AngTot CenTypeIn chk (pre @ post))"
    unfolding array_of_core all without
    by (subst fold_step_out, subst (2) fold_step_out) simp
  show "diags_of (buildSino3D_core A N P Th AngTot CenTypeIn chk (pre @ (q, a1, b1) # post)) =
      diags_of (buildSino3D_core A N P Th AngTot CenTypeIn chk pre) @ No_such_object #
      diags_of (buildSino3D_core
                  (array_of (buildSino3D_core A N P Th AngTot CenTypeIn chk pre))
                  N P Th AngTot CenTypeIn chk post)"
    unfolding array_of_core diags_of_core all pre
    by (subst fold_step_out) simp
qed

theorem unknown_shape_is_skipped_witness:
  "(prm_Object tag7_example < 1 \<or> 6 < prm_Object tag7_example)
   \<and> accept_all (prm_C0 tag7_example) (prm_x0 tag7_example) (prm_y0 tag7_example)
        (prm_z0 tag7_example) (prm_a tag7_example) (prm_b tag7_example) (prm_c tag7_example) = 0
   \<and> buildSino3D_core_single zeros 2 2 [0] 1 0 tag7_example 0 0 = (0, zeros, [No_such_object])
   \<and> array_of (buildSino3D_core zeros 2 2 [0] 1 0 accept_all
                 [(tag7_example, 0, 0), (rect_example, 0, 0)]) =
      array_of (buildSino3D_core zeros 2 2 [0] 1 0 accept_all [(rect_example, 0, 0)])
   \<and> diags_of (buildSino3D_core zeros 2 2 [0] 1 0 accept_all
                 [(tag7_example, 0, 0), (rect_example, 0, 0)]) = [No_such_object]"
proof -
  have h: "prm_Object tag7_example < 1 \<or> 6 < prm_Object tag7_example"
    "accept_all (prm_C0 tag7_example) (prm_x0 tag7_example) (prm_y0 tag7_example)
        (prm_z0 tag7_example) (prm_a tag7_example) (prm_b tag7_example) (prm_c tag7_example) = 0"
    by (simp_all add: tag7_example_def accept_all_def)
  have d: "diags_of (buildSino3D_core B 2 2 [0] 1 0 accept_all [(rect_example, 0, 0)]) = []" for B
    by (simp add: diags_of_core component_step_def accept_all_def buildSino3D_core_single_def
        rect_example_facts returned_def split_beta Let_def)
  have e: "diags_of (buildSino3D_core zeros 2 2 [0] 1 0 accept_all []) = []"
    by (simp add: diags_of_core)
  show ?thesis
    using unknown_shape_is_skipped [where chk = accept_all and q = tag7_example
        and pre = "[]" and post = "[(rect_example, 0, 0)]"
        and A = zeros and N = 2 and P = 2 and Th = "[0]" and AngTot = 1 and CenTypeIn = 0
        and ?a1.0 = 0 and ?b1.0 = 0, OF h]
    by (simp only: h d e append_Nil simp_thms)
qed

text \<open>
  Claim C1 as stated fails: in the model \<open>[tag 7, rectangle]\<close> the rectangle, which
  follows the component with the unknown tag, is processed and contributes \<open>1/2\<close> to the
  cell at offset 2, which the model \<open>[tag 7]\<close> leaves at 0; the value returned is the
  first cell of the array in both.
\<close>

theorem unknown_shape_counterexample:
  "array_of (buildSino3D_core zeros 2 2 [0] 1 0 accept_all
               [(tag7_example, 0, 0), (rect_example, 0, 0)]) 2 = 1 / 2
   \<and> array_of (buildSino3D_core zeros 2 2 [0] 1 0 accept_all [(tag7_example, 0, 0)]) 2 = 0"
proof -
  have t: "prm_Object tag7_example < 1 \<or> 6 < prm_Object tag7_example"
    "accept_all (prm_C0 tag7_example) (prm_x0 tag7_example) (prm_y0 tag7_example)
        (prm_z0 tag7_example) (prm_a tag7_example) (prm_b tag7_example) (prm_c tag7_example) = 0"
    by (simp_all add: tag7_example_def accept_all_def)
  have r: "array_of (buildSino3D_core_single zeros 2 2 [0] 1 0 rect_example 0 0)
          (1 * 2 * 1 + 0 * 2 + 0) = 1 / 2"
    by (subst single_rect_cell)
       (simp_all add: rect_example_facts AnglesRad_nth rect_SS_axis_aligned grid_2_2
          centre_rect_def zeros_def)
  have "array_of (buildSino3D_core zeros 2 2 [0] 1 0 accept_all
               [(tag7_example, 0, 0), (rect_example, 0, 0)]) 2
      = array_of (buildSino3D_core_single zeros 2 2 [0] 1 0 rect_example 0 0) 2"
    by (simp add: array_of_core step_unknown [where chk = accept_all, OF t])
       (simp add: component_step_def accept_all_def split_beta array_of_def)
  moreover have "array_of (buildSino3D_core zeros 2 2 [0] 1 0 accept_all [(tag7_example, 0, 0)]) 2 = 0"
    by (simp add: array_of_core step_unknown [where chk = accept_all, OF t] zeros_def)
  ultimately show ?thesis using r by simp
qed

section \<open>Cells outside the support of the disk and the parabolas\<close>

text \<open>
  Claim C3.  For the parabola (object 2), the elliptical disk (object 3) and the
  parabola with Lambda = 1 (object 4): a grid cell whose \<^verbatim>\<open>AA6\<close> is at least 1 holds, after
  the call, the value it held before.
\<close>

theorem boundary_containment:
  assumes "k < N" and "i < AngTot" and "j < P"
    and "prm_Object q = 2 \<or> prm_Object q = 3 \<or> prm_Object q = 4"
    and "1 \<le> AA6_at N P Th AngTot CenTypeIn q k i j"
  shows "array_of (buildSino3D_core_single A N P Th AngTot CenTypeIn q a1 b1)
           (k * P * AngTot + i * P + j) = A (k * P * AngTot + i * P + j)"
proof -
  consider "prm_Object q = 2" | "prm_Object q = 3" | "prm_Object q = 4"
    using assms(4) by blast
  then show ?thesis
  proof cases
    case 1
    have "parabola_cell N
            (prm_C0 q * (1 - Zdel2 N 2 (prm_c q) (prm_z0 q) ! k)\<^sup>2)
            (prm_a q * (1 - Zdel2 N 2 (prm_c q) (prm_z0 q) ! k)\<^sup>2)
            (prm_b q * (1 - Zdel2 N 2 (prm_c q) (prm_z0 q) ! k)\<^sup>2)
            (fst (centre_xy CenTypeIn N (prm_x0 q) (prm_y0 q)))
            (snd (centre_xy CenTypeIn N (prm_x0 q) (prm_y0 q)))
            (prm_psi_gr1 q * (pi / 180))
            (AnglesRad Th AngTot ! i) (Sinorange_P_Ar N P ! j) = None"
      using assms(5) 1 by (simp add: AA6_at_def parabola_cell_def split_beta Let_def)
    then show ?thesis
      unfolding single_parabola [OF 1]
      by (simp add: loops_cell [OF assms(1-3)] val_def)
  next
    case 2
    have "disk_cell N (prm_C0 q) (prm_a q) (prm_b q)
            (fst (centre_xy CenTypeIn N (prm_x0 q) (prm_y0 q)))
            (snd (centre_xy CenTypeIn N (prm_x0 q) (prm_y0 q)))
            (prm_psi_gr1 q * (pi / 180))
            (AnglesRad Th AngTot ! i) (Sinorange_P_Ar N P ! j) = None"
      using assms(5) 2 by (simp add: AA6_at_def disk_cell_def split_beta Let_def)
    then show ?thesis
      unfolding single_disk [OF 2]
      by (simp add: loops_cell [OF assms(1-3)] val_def)
  next
    case 3
    have "parabola1_cell N
            (prm_C0 q * (1 - Zdel2 N 4 (prm_c q) (prm_z0 q) ! k)\<^sup>2)
            (prm_a q * (1 - Zdel2 N 4 (prm_c q) (prm_z0 q) ! k)\<^sup>2)
            (prm_b q * (1 - Zdel2 N 4 (prm_c q) (prm_z0 q) ! k)\<^sup>2)
            (fst (centre_xy CenTypeIn N (prm_x0 q) (prm_y0 q)))
            (snd (centre_xy CenTypeIn N (prm_x0 q) (prm_y0 q)))
            (prm_psi_gr1 q * (pi / 180))
            (AnglesRad Th AngTot ! i) (Sinorange_P_Ar N P ! j) = None"
      using assms(5) 3 by (simp add: AA6_at_def parabola1_cell_def split_beta Let_def)
    then show ?thesis
      unfolding single_parabola1 [OF 3]
      by (simp add: loops_cell [OF assms(1-3)] val_def)
  qed
qed

lemma AA6_small_disk: "AA6_at 2 2 [0] 1 0 small_disk_example 1 0 0 = 16 / 9"
  by (simp add: AA6_at_def small_disk_example_facts centre_xy_def grid_2_2 AnglesRad_nth
      disk_ray_def Let_def power2_eq_square)

theorem boundary_containment_witness:
  "(1::nat) < 2 \<and> (0::nat) < 1 \<and> (0::nat) < 2
   \<and> (prm_Object small_disk_example = 2 \<or> prm_Object small_disk_example = 3
        \<or> prm_Object small_disk_example = 4)
   \<and> 1 \<le> AA6_at 2 2 [0] 1 0 small_disk_example 1 0 0
   \<and> array_of (buildSino3D_core_single zeros 2 2 [0] 1 0 small_disk_example 0 0)
        (1 * 2 * 1 + 0 * 2 + 0) = zeros (1 * 2 * 1 + 0 * 2 + 0)"
proof -
  have h: "(1::nat) < 2" "(0::nat) < 1" "(0::nat) < 2"
    "prm_Object small_disk_example = 2 \<or> prm_Object small_disk_example = 3
        \<or> prm_Object small_disk_example = 4"
    by (simp_all add: small_disk_example_facts)
  have h5: "1 \<le> AA6_at 2 2 [0] 1 0 small_disk_example 1 0 0"
    by (subst AA6_small_disk) simp
  show ?thesis
    using boundary_containment [OF h h5, of zeros 0 0] h h5 by blast
qed

section \<open>Slice modulation\<close>

lemma c2_Zdel2:
  assumes "k < N"
  shows "Zdel2 N Object c z0 ! k =
           (if Object = 4 then 4 * (Zdel N z0 ! k / c)\<^sup>2 else (Zdel N z0 ! k / c)\<^sup>2)"
  using assms by (simp add: Zdel2_nth c2_of_def Let_def power_divide power2_eq_square)

lemma sq_le_one_iff:
  fixes d c :: real
  assumes "c \<noteq> 0"
  shows "(d / c)\<^sup>2 \<le> 1 \<longleftrightarrow> \<bar>d\<bar> \<le> \<bar>c\<bar>"
proof -
  have "(d / c)\<^sup>2 \<le> 1 \<longleftrightarrow> d\<^sup>2 \<le> c\<^sup>2"
    using assms by (simp add: power_divide divide_le_eq)
  also have "\<dots> \<longleftrightarrow> \<bar>d\<bar> \<le> \<bar>c\<bar>"
    by (rule abs_le_square_iff [symmetric])
  finally show ?thesis .
qed

lemma four_sq_le_one_iff:
  fixes d c :: real
  assumes "c \<noteq> 0"
  shows "4 * (d / c)\<^sup>2 \<le> 1 \<longleftrightarrow> 2 * \<bar>d\<bar> \<le> \<bar>c\<bar>"
proof -
  have "4 * (d / c)\<^sup>2 = ((2 * d) / c)\<^sup>2" by (simp add: power_divide power_mult_distrib)
  then show ?thesis using sq_le_one_iff [OF assms, of "2 * d"] by (simp add: abs_mult)
qed

text \<open>The value left in a cell by the four guarded nests, in the model: the guard on
  \<^verbatim>\<open>Zdel2[k]\<close> as a comparison of \<open>|Zdel[k]|\<close> with \<open>|c|\<close>, and the parameters passed to the
  2D formula.  On a slice with \<open>|Zdel[k]| = |c|\<close> the rescaled semi-axes are 0 and the
  formulas of objects 2, 4 and 5 divide by zero; the theorem on the slice modulation
  below leaves that slice out.\<close>

lemma slice_cells:
  assumes "k < N" and "i < AngTot" and "j < P" and "prm_c q \<noteq> 0"
  shows "(prm_Object q = 2 \<longrightarrow>
           array_of (buildSino3D_core_single A N P Th AngTot CenTypeIn q a1 b1)
             (k * P * AngTot + i * P + j) =
           A (k * P * AngTot + i * P + j) +
           (if \<bar>Zdel N (prm_z0 q) ! k\<bar> \<le> \<bar>prm_c q\<bar>
            then val (parabola_cell N
                   (prm_C0 q * (1 - (Zdel N (prm_z0 q) ! k / prm_c q)\<^sup>2)\<^sup>2)
                   (prm_a q * (1 - (Zdel N (prm_z0 q) ! k / prm_c q)\<^sup>2)\<^sup>2)
                   (prm_b q * (1 - (Zdel N (prm_z0 q) ! k / prm_c q)\<^sup>2)\<^sup>2)
                   (fst (centre_xy CenTypeIn N (prm_x0 q) (prm_y0 q)))
                   (snd (centre_xy CenTypeIn N (prm_x0 q) (prm_y0 q)))
                   (prm_psi_gr1 q * (pi / 180))
                   (AnglesRad Th AngTot ! i) (Sinorange_P_Ar N P ! j))
            else 0))
    \<and> (prm_Object q = 5 \<longrightarrow>
           array_of (buildSino3D_core_single A N P Th AngTot CenTypeIn q a1 b1)
             (k * P * AngTot + i * P + j) =
           A (k * P * AngTot + i * P + j) +
           (if \<bar>Zdel N (prm_z0 q) ! k\<bar> \<le> \<bar>prm_c q\<bar>
            then val (cone_cell N
                   (prm_C0 q * (1 - (Zdel N (prm_z0 q) ! k / prm_c q)\<^sup>2)\<^sup>2)
                   (prm_a q * (1 - (Zdel N (prm_z0 q) ! k / prm_c q)\<^sup>2)\<^sup>2)
                   (prm_b q * (1 - (Zdel N (prm_z0 q) ! k / prm_c q)\<^sup>2)\<^sup>2)
                   (fst (centre_xy CenTypeIn N (prm_x0 q) (prm_y0 q)))
                   (snd (centre_xy CenTypeIn N (prm_x0 q) (prm_y0 q)))
                   (prm_psi_gr1 q * (pi / 180))
                   (AnglesRad Th AngTot ! i) (Sinorange_P_Ar N P ! j))
            else 0))
    \<and> (prm_Object q = 4 \<longrightarrow>
           array_of (buildSino3D_core_single A N P Th AngTot CenTypeIn q a1 b1)
             (k * P * AngTot + i * P + j) =
           A (k * P * AngTot + i * P + j) +
           (if 2 * \<bar>Zdel N (prm_z0 q) ! k\<bar> \<le> \<bar>prm_c q\<bar>
            then val (parabola1_cell N
                   (prm_C0 q * (1 - 4 * (Zdel N (prm_z0 q) ! k / prm_c q)\<^sup>2)\<^sup>2)
                   (prm_a q * (1 - 4 * (Zdel N (prm_z0 q) ! k / prm_c q)\<^sup>2)\<^sup>2)
                   (prm_b q * (1 - 4 * (Zdel N (prm_z0 q) ! k / prm_c q)\<^sup>2)\<^sup>2)
                   (fst (centre_xy CenTypeIn N (prm_x0 q) (prm_y0 q)))
                   (snd (centre_xy CenTypeIn N (prm_x0 q) (prm_y0 q)))
                   (prm_psi_gr1 q * (pi / 180))
                   (AnglesRad Th AngTot ! i) (Sinorange_P_Ar N P ! j))
            else 0))
    \<and> (prm_Object q = 3 \<longrightarrow>
           array_of (buildSino3D_core_single A N P Th AngTot CenTypeIn q a1 b1)
             (k * P * AngTot + i * P + j) =
           A (k * P * AngTot + i * P + j) +
           (if \<bar>Zdel N (prm_z0 q) ! k\<bar> \<le> \<bar>prm_c q\<bar>
            then val (disk_cell N (prm_C0 q) (prm_a q) (prm_b q)
                   (fst (centre_xy CenTypeIn N (prm_x0 q) (prm_y0 q)))
                   (snd (centre_xy CenTypeIn N (prm_x0 q) (prm_y0 q)))
                   (prm_psi_gr1 q * (pi / 180))
                   (AnglesRad Th AngTot ! i) (Sinorange_P_Ar N P ! j))
            else 0))"
proof (intro conjI impI)
  note z = c2_Zdel2 [OF assms(1)]
  note s1 = sq_le_one_iff [OF assms(4)]
  note s4 = four_sq_le_one_iff [OF assms(4)]
  assume o: "prm_Object q = 2"
  show "array_of (buildSino3D_core_single A N P Th AngTot CenTypeIn q a1 b1)
             (k * P * AngTot + i * P + j) =
           A (k * P * AngTot + i * P + j) +
           (if \<bar>Zdel N (prm_z0 q) ! k\<bar> \<le> \<bar>prm_c q\<bar>
            then val (parabola_cell N
                   (prm_C0 q * (1 - (Zdel N (prm_z0 q) ! k / prm_c q)\<^sup>2)\<^sup>2)
                   (prm_a q * (1 - (Zdel N (prm_z0 q) ! k / prm_c q)\<^sup>2)\<^sup>2)
                   (prm_b q * (1 - (Zdel N (prm_z0 q) ! k / prm_c q)\<^sup>2)\<^sup>2)
                   (fst (centre_xy CenTypeIn N (prm_x0 q) (prm_y0 q)))
                   (snd (centre_xy CenTypeIn N (prm_x0 q) (prm_y0 q)))
                   (prm_psi_gr1 q * (pi / 180))
                   (AnglesRad Th AngTot ! i) (Sinorange_P_Ar N P ! j))
            else 0)"
    unfolding single_parabola [OF o] loops_cell [OF assms(1-3)] z s1 [symmetric]
    by simp
next
  note z = c2_Zdel2 [OF assms(1)]
  note s1 = sq_le_one_iff [OF assms(4)]
  assume o: "prm_Object q = 5"
  show "array_of (buildSino3D_core_single A N P Th AngTot CenTypeIn q a1 b1)
             (k * P * AngTot + i * P + j) =
           A (k * P * AngTot + i * P + j) +
           (if \<bar>Zdel N (prm_z0 q) ! k\<bar> \<le> \<bar>prm_c q\<bar>
            then val (cone_cell N
                   (prm_C0 q * (1 - (Zdel N (prm_z0 q) ! k / prm_c q)\<^sup>2)\<^sup>2)
                   (prm_a q * (1 - (Zdel N (prm_z0 q) ! k / prm_c q)\<^sup>2)\<^sup>2)
                   (prm_b q * (1 - (Zdel N (prm_z0 q) ! k / prm_c q)\<^sup>2)\<^sup>2)
                   (fst (centre_xy CenTypeIn N (prm_x0 q) (prm_y0 q)))
                   (snd (centre_xy CenTypeIn N (prm_x0 q) (prm_y0 q)))
                   (prm_psi_gr1 q * (pi / 180))
                   (AnglesRad Th AngTot ! i) (Sinorange_P_Ar N P ! j))
            else 0)"
    unfolding single_cone [OF o] loops_cell [OF assms(1-3)] z s1 [symmetric]
    by simp
next
  note z = c2_Zdel2 [OF assms(1)]
  note s4 = four_sq_le_one_iff [OF assms(4)]
  assume o: "prm_Object q = 4"
  show "array_of (buildSino3D_core_single A N P Th AngTot CenTypeIn q a1 b1)
             (k * P * AngTot + i * P + j) =
           A (k * P * AngTot + i * P + j) +
           (if 2 * \<bar>Zdel N (prm_z0 q) ! k\<bar> \<le> \<bar>prm_c q\<bar>
            then val (parabola1_cell N
                   (prm_C0 q * (1 - 4 * (Zdel N (prm_z0 q) ! k / prm_c q)\<^sup>2)\<^sup>2)
                   (prm_a q * (1 - 4 * (Zdel N (prm_z0 q) ! k / prm_c q)\<^sup>2)\<^sup>2)
                   (prm_b q * (1 - 4 * (Zdel N (prm_z0 q) ! k / prm_c q)\<^sup>2)\<^sup>2)
                   (fst (centre_xy CenTypeIn N (prm_x0 q) (prm_y0 q)))
                   (snd (centre_xy CenTypeIn N (prm_x0 q) (prm_y0 q)))
                   (prm_psi_gr1 q * (pi / 180))
                   (AnglesRad Th AngTot ! i) (Sinorange_P_Ar N P ! j))
            else 0)"
    unfolding single_parabola1 [OF o] loops_cell [OF assms(1-3)] z s4 [symmetric]
    by simp
next
  note z = c2_Zdel2 [OF assms(1)]
  note s1 = sq_le_one_iff [OF assms(4)]
  assume o: "prm_Object q = 3"
  show "array_of (buildSino3D_core_single A N P Th AngTot CenTypeIn q a1 b1)
             (k * P * AngTot + i * P + j) =
           A (k * P * AngTot + i * P + j) +
           (if \<bar>Zdel N (prm_z0 q) ! k\<bar> \<le> \<bar>prm_c q\<bar>
            then val (disk_cell N (prm_C0 q) (prm_a q) (prm_b q)
                   (fst (centre_xy CenTypeIn N (prm_x0 q) (prm_y0 q)))
                   (snd (centre_xy CenTypeIn N (prm_x0 q) (prm_y0 q)))
                   (prm_psi_gr1 q * (pi / 180))
                   (AnglesRad Th AngTot ! i) (Sinorange_P_Ar N P ! j))
            else 0)"
    unfolding single_disk [OF o] loops_cell [OF assms(1-3)] z s1 [symmetric]
    by simp
qed

lemma sq_less_one_iff:
  fixes d c :: real
  assumes "c \<noteq> 0"
  shows "(d / c)\<^sup>2 < 1 \<longleftrightarrow> \<bar>d\<bar> < \<bar>c\<bar>"
proof -
  have "(d / c)\<^sup>2 < 1 \<longleftrightarrow> \<not> 1 \<le> (d / c)\<^sup>2" by auto
  also have "\<dots> \<longleftrightarrow> \<not> c\<^sup>2 \<le> d\<^sup>2"
    using assms by (simp add: power_divide le_divide_eq)
  also have "\<dots> \<longleftrightarrow> \<not> \<bar>c\<bar> \<le> \<bar>d\<bar>"
    by (simp only: abs_le_square_iff)
  finally show ?thesis by auto
qed

lemma shrink_pos:
  fixes d c :: real
  assumes "c \<noteq> 0" and "\<bar>d\<bar> < \<bar>c\<bar>"
  shows "0 < (1 - (d / c)\<^sup>2)\<^sup>2"
proof -
  have "(d / c)\<^sup>2 < 1" using assms by (simp add: sq_less_one_iff)
  then show ?thesis by simp
qed

lemma shrink4_pos:
  fixes d c :: real
  assumes "c \<noteq> 0" and "2 * \<bar>d\<bar> < \<bar>c\<bar>"
  shows "0 < (1 - 4 * (d / c)\<^sup>2)\<^sup>2"
proof -
  have "4 * (d / c)\<^sup>2 = ((2 * d) / c)\<^sup>2" by (simp add: power_divide power_mult_distrib)
  moreover have "((2 * d) / c)\<^sup>2 < 1"
    using assms sq_less_one_iff [OF assms(1), of "2 * d"] by (simp add: abs_mult)
  ultimately have "4 * (d / c)\<^sup>2 < 1" by simp
  then show ?thesis by simp
qed

text \<open>The divisor of \<^verbatim>\<open>delta1\<close> is positive for positive semi-axes.\<close>

lemma dir_denominator_pos:
  fixes u v t :: real
  assumes "0 < u" and "0 < v"
  shows "0 < u * (cos t)\<^sup>2 + v * (sin t)\<^sup>2"
proof (cases "cos t = 0")
  case True
  then have "(sin t)\<^sup>2 = 1" using sin_cos_squared_add [of t] by simp
  then show ?thesis using True assms by simp
next
  case False
  then have "0 < u * (cos t)\<^sup>2" using assms by simp
  moreover have "0 \<le> v * (sin t)\<^sup>2" using assms by simp
  ultimately show ?thesis by linarith
qed

lemma rescaled_denominator_pos:
  fixes a b d c t :: real
  assumes "c \<noteq> 0" and "0 < a" and "0 < b" and "\<bar>d\<bar> < \<bar>c\<bar>"
  shows "0 < (a * (1 - (d / c)\<^sup>2)\<^sup>2) * (cos t)\<^sup>2 + (b * (1 - (d / c)\<^sup>2)\<^sup>2) * (sin t)\<^sup>2"
  using assms by (intro dir_denominator_pos mult_pos_pos shrink_pos)

lemma rescaled4_denominator_pos:
  fixes a b d c t :: real
  assumes "c \<noteq> 0" and "0 < a" and "0 < b" and "2 * \<bar>d\<bar> < \<bar>c\<bar>"
  shows "0 < 0.25 * (a * (1 - 4 * (d / c)\<^sup>2)\<^sup>2) * (cos t)\<^sup>2
           + 0.25 * (b * (1 - 4 * (d / c)\<^sup>2)\<^sup>2) * (sin t)\<^sup>2"
proof -
  have "0 < (0.25 * (a * (1 - 4 * (d / c)\<^sup>2)\<^sup>2)) * (cos t)\<^sup>2
           + (0.25 * (b * (1 - 4 * (d / c)\<^sup>2)\<^sup>2)) * (sin t)\<^sup>2"
    using assms by (intro dir_denominator_pos mult_pos_pos shrink4_pos) simp_all
  then show ?thesis by (simp add: mult.assoc)
qed

lemma disk_denominator_pos:
  fixes a b t :: real
  assumes "0 < a" and "0 < b"
  shows "0 < (a * a) * (cos t)\<^sup>2 + (b * b) * (sin t)\<^sup>2"
  using assms by (intro dir_denominator_pos mult_pos_pos)

text \<open>The count of the executions of the loop body.\<close>

lemma fold_count:
  fixes F :: "nat \<Rightarrow> nat \<Rightarrow> nat"
  assumes "\<And>k n. F k n = n + c k"
  shows "fold F ks m = m + sum_list (map c ks)"
  by (induction ks arbitrary: m) (simp_all add: assms)

lemma fold_upt_count:
  fixes F :: "nat \<Rightarrow> nat \<Rightarrow> nat"
  assumes "\<And>k n. F k n = n + c k"
  shows "fold F [0..<M] m = m + (\<Sum>k<M. c k)"
proof -
  have "sum_list (map c [0..<M]) = (\<Sum>k<M. c k)"
    by (simp add: interv_sum_list_conv_sum_set_nat atLeast0LessThan)
  then show ?thesis using fold_count [of F c, OF assms] by simp
qed

lemma nest_evals_sum:
  "nest_evals N AngTot P Zd2 = (\<Sum>k<N. if Zd2 ! k \<le> 1 then AngTot * P else 0)"
proof -
  have j: "fold (\<lambda>j n. Suc n) [0..<P] n = n + P" for n :: nat
    using fold_upt_count [of "\<lambda>j n. Suc n" "\<lambda>j. 1" P n] by simp
  have i: "fold (\<lambda>i n. fold (\<lambda>j n. Suc n) [0..<P] n) [0..<AngTot] n = n + AngTot * P"
    for n :: nat
    using fold_upt_count [of "\<lambda>i n. fold (\<lambda>j n. Suc n) [0..<P] n" "\<lambda>i. P" AngTot n]
    by (simp add: j)
  have "nest_evals N AngTot P Zd2 =
          0 + (\<Sum>k<N. if Zd2 ! k \<le> 1 then AngTot * P else 0)"
    unfolding nest_evals_def
    by (rule fold_upt_count) (simp add: i)
  then show ?thesis by simp
qed

lemma nest_evals_support:
  assumes "c \<noteq> 0"
  shows "nest_evals N AngTot P (Zdel2 N Object c z0) =
           (\<Sum>k<N. if (if Object = 4 then 2 * \<bar>Zdel N z0 ! k\<bar> \<le> \<bar>c\<bar>
                         else \<bar>Zdel N z0 ! k\<bar> \<le> \<bar>c\<bar>)
                    then AngTot * P else 0)"
  unfolding nest_evals_sum
  by (intro sum.cong refl)
     (simp add: c2_Zdel2 sq_le_one_iff [OF assms] four_sq_le_one_iff [OF assms])

text \<open>
  Claim C4, as amended.  With \<open>d = Zdel[k]\<close> the signed distance of slice \<open>k\<close> from \<open>z0\<close>,
  and \<open>c \<noteq> 0\<close>, \<open>a > 0\<close>, \<open>b > 0\<close>:
  \<^item> parabola (object 2) and cone (object 5): a slice with \<open>|d| < |c|\<close> receives the 2D
    formula evaluated with \<open>C0\<close>, \<open>a\<close> and \<open>b\<close> each multiplied by \<open>(1 - (d/c)\<^sup>2)\<^sup>2\<close>, and the
    divisor of \<^verbatim>\<open>delta1\<close> is positive there;
  \<^item> parabola with Lambda = 1 (object 4): \<^verbatim>\<open>c2\<close> is multiplied by 4, so the same holds
    on the slices with \<open>2 |d| < |c|\<close> and with the factor \<open>(1 - 4 (d/c)\<^sup>2)\<^sup>2\<close>;
  \<^item> elliptical disk (object 3): a slice with \<open>|d| \<le> |c|\<close> receives the 2D formula
    evaluated with \<open>C0\<close>, \<open>a\<close> and \<open>b\<close> themselves, the same on every such slice;
  \<^item> for all four, a slice with \<open>|d| > |c|\<close> (\<open>2 |d| > |c|\<close> for object 4) receives
    nothing, and the body of the detector loop is executed \<open>AngTot * P\<close> times for every
    slice with \<open>|d| \<le> |c|\<close> (\<open>2 |d| \<le> |c|\<close> for object 4) and not at all for the others.

  The slice with \<open>|d| = |c|\<close> exactly (\<open>2 |d| = |c|\<close> for object 4) is entered with semi-axes
  and intensity 0, and the formulas of objects 2, 4 and 5 divide by zero there; nothing
  is stated about the values it receives.
\<close>

theorem slice_modulation:
  assumes "k < N" and "i < AngTot" and "j < P"
    and "prm_c q \<noteq> 0" and "0 < prm_a q" and "0 < prm_b q"
  shows "(prm_Object q = 2 \<and> \<bar>Zdel N (prm_z0 q) ! k\<bar> < \<bar>prm_c q\<bar> \<longrightarrow>
           0 < (prm_a q * (1 - (Zdel N (prm_z0 q) ! k / prm_c q)\<^sup>2)\<^sup>2) * (cos (AnglesRad Th AngTot ! i + prm_psi_gr1 q * (pi / 180)))\<^sup>2
                 + (prm_b q * (1 - (Zdel N (prm_z0 q) ! k / prm_c q)\<^sup>2)\<^sup>2) * (sin (AnglesRad Th AngTot ! i + prm_psi_gr1 q * (pi / 180)))\<^sup>2
           \<and> array_of (buildSino3D_core_single A N P Th AngTot CenTypeIn q a1 b1)
               (k * P * AngTot + i * P + j) =
             A (k * P * AngTot + i * P + j) +
             val (parabola_cell N
                        (prm_C0 q * (1 - (Zdel N (prm_z0 q) ! k / prm_c q)\<^sup>2)\<^sup>2)
                        (prm_a q * (1 - (Zdel N (prm_z0 q) ! k / prm_c q)\<^sup>2)\<^sup>2)
                        (prm_b q * (1 - (Zdel N (prm_z0 q) ! k / prm_c q)\<^sup>2)\<^sup>2)
                        (fst (centre_xy CenTypeIn N (prm_x0 q) (prm_y0 q)))
                        (snd (centre_xy CenTypeIn N (prm_x0 q) (prm_y0 q)))
                        (prm_psi_gr1 q * (pi / 180))
                        (AnglesRad Th AngTot ! i) (Sinorange_P_Ar N P ! j)))
    \<and> (prm_Object q = 2 \<and> \<bar>prm_c q\<bar> < \<bar>Zdel N (prm_z0 q) ! k\<bar> \<longrightarrow>
           array_of (buildSino3D_core_single A N P Th AngTot CenTypeIn q a1 b1)
               (k * P * AngTot + i * P + j) =
             A (k * P * AngTot + i * P + j))
    \<and> (prm_Object q = 5 \<and> \<bar>Zdel N (prm_z0 q) ! k\<bar> < \<bar>prm_c q\<bar> \<longrightarrow>
           0 < (prm_a q * (1 - (Zdel N (prm_z0 q) ! k / prm_c q)\<^sup>2)\<^sup>2) * (cos (AnglesRad Th AngTot ! i + prm_psi_gr1 q * (pi / 180)))\<^sup>2
                 + (prm_b q * (1 - (Zdel N (prm_z0 q) ! k / prm_c q)\<^sup>2)\<^sup>2) * (sin (AnglesRad Th AngTot ! i + prm_psi_gr1 q * (pi / 180)))\<^sup>2
           \<and> array_of (buildSino3D_core_single A N P Th AngTot CenTypeIn q a1 b1)
               (k * P * AngTot + i * P + j) =
             A (k * P * AngTot + i * P + j) +
             val (cone_cell N
                        (prm_C0 q * (1 - (Zdel N (prm_z0 q) ! k / prm_c q)\<^sup>2)\<^sup>2)
                        (prm_a q * (1 - (Zdel N (prm_z0 q) ! k / prm_c q)\<^sup>2)\<^sup>2)
                        (prm_b q * (1 - (Zdel N (prm_z0 q) ! k / prm_c q)\<^sup>2)\<^sup>2)
                        (fst (centre_xy CenTypeIn N (prm_x0 q) (prm_y0 q)))
                        (snd (centre_xy CenTypeIn N (prm_x0 q) (prm_y0 q)))
                        (prm_psi_gr1 q * (pi / 180))
                        (AnglesRad Th AngTot ! i) (Sinorange_P_Ar N P ! j)))
    \<and> (prm_Object q = 5 \<and> \<bar>prm_c q\<bar> < \<bar>Zdel N (prm_z0 q) ! k\<bar> \<longrightarrow>
           array_of (buildSino3D_core_single A N P Th AngTot CenTypeIn q a1 b1)
               (k * P * AngTot + i * P + j) =
             A (k * P * AngTot + i * P + j))
    \<and> (prm_Object q = 4 \<and> 2 * \<bar>Zdel N (prm_z0 q) ! k\<bar> < \<bar>prm_c q\<bar> \<longrightarrow>
           0 < 0.25 * (prm_a q * (1 - 4 * (Zdel N (prm_z0 q) ! k / prm_c q)\<^sup>2)\<^sup>2) * (cos (AnglesRad Th AngTot ! i + prm_psi_gr1 q * (pi / 180)))\<^sup>2
                 + 0.25 * (prm_b q * (1 - 4 * (Zdel N (prm_z0 q) ! k / prm_c q)\<^sup>2)\<^sup>2) * (sin (AnglesRad Th AngTot ! i + prm_psi_gr1 q * (pi / 180)))\<^sup>2
           \<and> array_of (buildSino3D_core_single A N P Th AngTot CenTypeIn q a1 b1)
               (k * P * AngTot + i * P + j) =
             A (k * P * AngTot + i * P + j) +
             val (parabola1_cell N
                        (prm_C0 q * (1 - 4 * (Zdel N (prm_z0 q) ! k / prm_c q)\<^sup>2)\<^sup>2)
                        (prm_a q * (1 - 4 * (Zdel N (prm_z0 q) ! k / prm_c q)\<^sup>2)\<^sup>2)
                        (prm_b q * (1 - 4 * (Zdel N (prm_z0 q) ! k / prm_c q)\<^sup>2)\<^sup>2)
                        (fst (centre_xy CenTypeIn N (prm_x0 q) (prm_y0 q)))
                        (snd (centre_xy CenTypeIn N (prm_x0 q) (prm_y0 q)))
                        (prm_psi_gr1 q * (pi / 180))
                        (AnglesRad Th AngTot ! i) (Sinorange_P_Ar N P ! j)))
    \<and> (prm_Object q = 4 \<and> \<bar>prm_c q\<bar> < 2 * \<bar>Zdel N (prm_z0 q) ! k\<bar> \<longrightarrow>
           array_of (buildSino3D_core_single A N P Th AngTot CenTypeIn q a1 b1)
               (k * P * AngTot + i * P + j) =
             A (k * P * AngTot + i * P + j))
    \<and> (prm_Object q = 3 \<and> \<bar>Zdel N (prm_z0 q) ! k\<bar> \<le> \<bar>prm_c q\<bar> \<longrightarrow>
           0 < (prm_a q * prm_a q) * (cos (AnglesRad Th AngTot ! i + prm_psi_gr1 q * (pi / 180)))\<^sup>2
                 + (prm_b q * prm_b q) * (sin (AnglesRad Th AngTot ! i + prm_psi_gr1 q * (pi / 180)))\<^sup>2
           \<and> array_of (buildSino3D_core_single A N P Th AngTot CenTypeIn q a1 b1)
               (k * P * AngTot + i * P + j) =
             A (k * P * AngTot + i * P + j) +
             val (disk_cell N
                        (prm_C0 q)
                        (prm_a q)
                        (prm_b q)
                        (fst (centre_xy CenTypeIn N (prm_x0 q) (prm_y0 q)))
                        (snd (centre_xy CenTypeIn N (prm_x0 q) (prm_y0 q)))
                        (prm_psi_gr1 q * (pi / 180))
                        (AnglesRad Th AngTot ! i) (Sinorange_P_Ar N P ! j)))
    \<and> (prm_Object q = 3 \<and> \<bar>prm_c q\<bar> < \<bar>Zdel N (prm_z0 q) ! k\<bar> \<longrightarrow>
           array_of (buildSino3D_core_single A N P Th AngTot CenTypeIn q a1 b1)
               (k * P * AngTot + i * P + j) =
             A (k * P * AngTot + i * P + j))
    \<and> (prm_Object q = 2 \<or> prm_Object q = 3 \<or> prm_Object q = 5 \<longrightarrow>
           nest_evals N AngTot P (Zdel2 N (prm_Object q) (prm_c q) (prm_z0 q)) =
             (\<Sum>k'<N. if \<bar>Zdel N (prm_z0 q) ! k'\<bar> \<le> \<bar>prm_c q\<bar> then AngTot * P else 0))
    \<and> (prm_Object q = 4 \<longrightarrow>
           nest_evals N AngTot P (Zdel2 N (prm_Object q) (prm_c q) (prm_z0 q)) =
             (\<Sum>k'<N. if 2 * \<bar>Zdel N (prm_z0 q) ! k'\<bar> \<le> \<bar>prm_c q\<bar> then AngTot * P else 0))"
proof -
  note cells = slice_cells [OF assms(1-4), where A = A and Th = Th
      and CenTypeIn = CenTypeIn and ?a1.0 = a1 and ?b1.0 = b1]
  note count = nest_evals_support [OF assms(4), of N AngTot P "prm_Object q" "prm_z0 q"]
  show ?thesis
    apply (intro conjI impI)
    subgoal using assms by (intro rescaled_denominator_pos) simp_all
    subgoal using cells by simp
    subgoal using cells by simp
    subgoal using assms by (intro rescaled_denominator_pos) simp_all
    subgoal using cells by simp
    subgoal using cells by simp
    subgoal using assms by (intro rescaled4_denominator_pos) simp_all
    subgoal using cells by simp
    subgoal using cells by simp
    subgoal using assms by (intro disk_denominator_pos) simp_all
    subgoal using cells by simp
    subgoal using cells by simp
    subgoal using count by auto
    subgoal using count by simp
    done
qed

theorem slice_modulation_witness:
  "(0::nat) < 2
   \<and> (0::nat) < 1
   \<and> (1::nat) < 2
   \<and> prm_c (slice_example 2 1) \<noteq> 0
   \<and> 0 < prm_a (slice_example 2 1)
   \<and> 0 < prm_b (slice_example 2 1)
   \<and> prm_Object (slice_example 2 1) = 2
   \<and> \<bar>Zdel 2 (prm_z0 (slice_example 2 1)) ! 0\<bar> < \<bar>prm_c (slice_example 2 1)\<bar>
   \<and> (1 - (Zdel 2 (prm_z0 (slice_example 2 1)) ! 0 / prm_c (slice_example 2 1))\<^sup>2)\<^sup>2 = 9 / 16
   \<and> array_of (buildSino3D_core_single zeros 2 2 [0] 1 0 (slice_example 2 1) 0 0) 1 = 27 * pi / 128
   \<and> prm_c (slice_example 5 1) \<noteq> 0
   \<and> 0 < prm_a (slice_example 5 1)
   \<and> 0 < prm_b (slice_example 5 1)
   \<and> prm_Object (slice_example 5 1) = 5
   \<and> \<bar>Zdel 2 (prm_z0 (slice_example 5 1)) ! 0\<bar> < \<bar>prm_c (slice_example 5 1)\<bar>
   \<and> (1 - (Zdel 2 (prm_z0 (slice_example 5 1)) ! 0 / prm_c (slice_example 5 1))\<^sup>2)\<^sup>2 = 9 / 16
   \<and> array_of (buildSino3D_core_single zeros 2 2 [0] 1 0 (slice_example 5 1) 0 0) 1 = 27 / 64
   \<and> prm_c (slice_example 4 2) \<noteq> 0
   \<and> 0 < prm_a (slice_example 4 2)
   \<and> 0 < prm_b (slice_example 4 2)
   \<and> prm_Object (slice_example 4 2) = 4
   \<and> 2 * \<bar>Zdel 2 (prm_z0 (slice_example 4 2)) ! 0\<bar> < \<bar>prm_c (slice_example 4 2)\<bar>
   \<and> (1 - 4 * (Zdel 2 (prm_z0 (slice_example 4 2)) ! 0 / prm_c (slice_example 4 2))\<^sup>2)\<^sup>2 = 9 / 16
   \<and> array_of (buildSino3D_core_single zeros 2 2 [0] 1 0 (slice_example 4 2) 0 0) 1 = 27 / 80
   \<and> prm_c (slice_example 3 1) \<noteq> 0
   \<and> 0 < prm_a (slice_example 3 1)
   \<and> 0 < prm_b (slice_example 3 1)
   \<and> prm_Object (slice_example 3 1) = 3
   \<and> \<bar>Zdel 2 (prm_z0 (slice_example 3 1)) ! 0\<bar> \<le> \<bar>prm_c (slice_example 3 1)\<bar>
   \<and> array_of (buildSino3D_core_single zeros 2 2 [0] 1 0 (slice_example 3 1) 0 0) 1 = 2
   \<and> prm_c (slice_example 2 (1 / 4)) \<noteq> 0
   \<and> prm_Object (slice_example 2 (1 / 4)) = 2
   \<and> \<bar>prm_c (slice_example 2 (1 / 4))\<bar> < \<bar>Zdel 2 (prm_z0 (slice_example 2 (1 / 4))) ! 0\<bar>
   \<and> array_of (buildSino3D_core_single zeros 2 2 [0] 1 0 (slice_example 2 (1 / 4)) 0 0) 1 = 0
   \<and> prm_c (slice_example 5 (1 / 4)) \<noteq> 0
   \<and> prm_Object (slice_example 5 (1 / 4)) = 5
   \<and> \<bar>prm_c (slice_example 5 (1 / 4))\<bar> < \<bar>Zdel 2 (prm_z0 (slice_example 5 (1 / 4))) ! 0\<bar>
   \<and> array_of (buildSino3D_core_single zeros 2 2 [0] 1 0 (slice_example 5 (1 / 4)) 0 0) 1 = 0
   \<and> prm_c (slice_example 4 (3 / 4)) \<noteq> 0
   \<and> prm_Object (slice_example 4 (3 / 4)) = 4
   \<and> \<bar>prm_c (slice_example 4 (3 / 4))\<bar> < 2 * \<bar>Zdel 2 (prm_z0 (slice_example 4 (3 / 4))) ! 0\<bar>
   \<and> array_of (buildSino3D_core_single zeros 2 2 [0] 1 0 (slice_example 4 (3 / 4)) 0 0) 1 = 0
   \<and> prm_c (slice_example 3 (1 / 4)) \<noteq> 0
   \<and> prm_Object (slice_example 3 (1 / 4)) = 3
   \<and> \<bar>prm_c (slice_example 3 (1 / 4))\<bar> < \<bar>Zdel 2 (prm_z0 (slice_example 3 (1 / 4))) ! 0\<bar>
   \<and> array_of (buildSino3D_core_single zeros 2 2 [0] 1 0 (slice_example 3 (1 / 4)) 0 0) 1 = 0
   \<and> nest_evals 2 1 2 (Zdel2 2 (prm_Object (slice_example 2 1)) (prm_c (slice_example 2 1)) (prm_z0 (slice_example 2 1))) = 4
   \<and> nest_evals 2 1 2 (Zdel2 2 (prm_Object (slice_example 2 (1 / 4))) (prm_c (slice_example 2 (1 / 4))) (prm_z0 (slice_example 2 (1 / 4)))) = 0
   \<and> nest_evals 2 1 2 (Zdel2 2 (prm_Object (slice_example 4 2)) (prm_c (slice_example 4 2)) (prm_z0 (slice_example 4 2))) = 4
   \<and> nest_evals 2 1 2 (Zdel2 2 (prm_Object (slice_example 4 (3 / 4))) (prm_c (slice_example 4 (3 / 4))) (prm_z0 (slice_example 4 (3 / 4)))) = 0"
proof -
  have n: "(0::nat) < 2" "(0::nat) < 1" "(1::nat) < 2" by simp_all
  have r: "sqrt (9 / 16) = (3 / 4 :: real)" "sqrt (16 / 9) = (4 / 3 :: real)"
    "sqrt (64 / 9) = (8 / 3 :: real)"
    using real_sqrt_abs2 [of "3 / 4"] real_sqrt_abs2 [of "4 / 3"] real_sqrt_abs2 [of "8 / 3"]
    by simp_all
  have p: "prm_c (slice_example obj c) \<noteq> 0" "0 < prm_a (slice_example obj c)"
    "0 < prm_b (slice_example obj c)" if "c \<noteq> 0" for obj c
    using that by (simp_all add: slice_example_facts)
  have s2: "(\<Sum>k<2. f k) = f 0 + f (Suc 0)" for f :: "nat \<Rightarrow> nat"
    by (simp add: numeral_2_eq_2)
  have ct: "cone_terms 0 = (1, 0)"
    by (simp add: cone_terms_def EPS_def)
  note ev = slice_example_facts grid_2_2 centre_xy_def AnglesRad_nth zeros_def val_def
    Let_def power2_eq_square r ct
  have c0: "(1::real) \<noteq> 0" by simp
  note t0 = slice_modulation [OF n p [OF c0, of 2], where A = zeros and Th = "[0]"
      and CenTypeIn = 0 and ?a1.0 = 0 and ?b1.0 = 0]
  have c1: "(1::real) \<noteq> 0" by simp
  note t1 = slice_modulation [OF n p [OF c1, of 5], where A = zeros and Th = "[0]"
      and CenTypeIn = 0 and ?a1.0 = 0 and ?b1.0 = 0]
  have c2: "(2::real) \<noteq> 0" by simp
  note t2 = slice_modulation [OF n p [OF c2, of 4], where A = zeros and Th = "[0]"
      and CenTypeIn = 0 and ?a1.0 = 0 and ?b1.0 = 0]
  have c3: "(1::real) \<noteq> 0" by simp
  note t3 = slice_modulation [OF n p [OF c3, of 3], where A = zeros and Th = "[0]"
      and CenTypeIn = 0 and ?a1.0 = 0 and ?b1.0 = 0]
  have c4: "(1 / 4::real) \<noteq> 0" by simp
  note t4 = slice_modulation [OF n p [OF c4, of 2], where A = zeros and Th = "[0]"
      and CenTypeIn = 0 and ?a1.0 = 0 and ?b1.0 = 0]
  have c5: "(1 / 4::real) \<noteq> 0" by simp
  note t5 = slice_modulation [OF n p [OF c5, of 5], where A = zeros and Th = "[0]"
      and CenTypeIn = 0 and ?a1.0 = 0 and ?b1.0 = 0]
  have c6: "(3 / 4::real) \<noteq> 0" by simp
  note t6 = slice_modulation [OF n p [OF c6, of 4], where A = zeros and Th = "[0]"
      and CenTypeIn = 0 and ?a1.0 = 0 and ?b1.0 = 0]
  have c7: "(1 / 4::real) \<noteq> 0" by simp
  note t7 = slice_modulation [OF n p [OF c7, of 3], where A = zeros and Th = "[0]"
      and CenTypeIn = 0 and ?a1.0 = 0 and ?b1.0 = 0]
  have v0: "array_of (buildSino3D_core_single zeros 2 2 [0] 1 0 (slice_example 2 1) 0 0)
      (0 * 2 * 1 + 0 * 2 + 1) = 27 * pi / 128"
    using t0 by (simp add: ev parabola_cell_def parabola_ray_def)
  have v1: "array_of (buildSino3D_core_single zeros 2 2 [0] 1 0 (slice_example 5 1) 0 0)
      (0 * 2 * 1 + 0 * 2 + 1) = 27 / 64"
    using t1 by (simp add: ev cone_cell_def cone_ray_def)
  have v2: "array_of (buildSino3D_core_single zeros 2 2 [0] 1 0 (slice_example 4 2) 0 0)
      (0 * 2 * 1 + 0 * 2 + 1) = 27 / 80"
    using t2 by (simp add: ev parabola1_cell_def parabola1_ray_def)
  have v3: "array_of (buildSino3D_core_single zeros 2 2 [0] 1 0 (slice_example 3 1) 0 0)
      (0 * 2 * 1 + 0 * 2 + 1) = 2"
    using t3 by (simp add: ev disk_cell_def disk_ray_def)
  have v4: "array_of (buildSino3D_core_single zeros 2 2 [0] 1 0 (slice_example 2 (1 / 4)) 0 0)
      (0 * 2 * 1 + 0 * 2 + 1) = 0"
    using t4 by (simp add: slice_example_facts grid_2_2 zeros_def)
  have v5: "array_of (buildSino3D_core_single zeros 2 2 [0] 1 0 (slice_example 5 (1 / 4)) 0 0)
      (0 * 2 * 1 + 0 * 2 + 1) = 0"
    using t5 by (simp add: slice_example_facts grid_2_2 zeros_def)
  have v6: "array_of (buildSino3D_core_single zeros 2 2 [0] 1 0 (slice_example 4 (3 / 4)) 0 0)
      (0 * 2 * 1 + 0 * 2 + 1) = 0"
    using t6 by (simp add: slice_example_facts grid_2_2 zeros_def)
  have v7: "array_of (buildSino3D_core_single zeros 2 2 [0] 1 0 (slice_example 3 (1 / 4)) 0 0)
      (0 * 2 * 1 + 0 * 2 + 1) = 0"
    using t7 by (simp add: slice_example_facts grid_2_2 zeros_def)
  have n0: "nest_evals 2 1 2 (Zdel2 2 (prm_Object (slice_example 2 1)) (prm_c (slice_example 2 1)) (prm_z0 (slice_example 2 1))) = 4"
    using t0 by (simp add: slice_example_facts grid_2_2 s2)
  have n1: "nest_evals 2 1 2 (Zdel2 2 (prm_Object (slice_example 2 (1 / 4))) (prm_c (slice_example 2 (1 / 4))) (prm_z0 (slice_example 2 (1 / 4)))) = 0"
    using t4 by (simp add: slice_example_facts grid_2_2 s2)
  have n2: "nest_evals 2 1 2 (Zdel2 2 (prm_Object (slice_example 4 2)) (prm_c (slice_example 4 2)) (prm_z0 (slice_example 4 2))) = 4"
    using t2 by (simp add: slice_example_facts grid_2_2 s2)
  have n3: "nest_evals 2 1 2 (Zdel2 2 (prm_Object (slice_example 4 (3 / 4))) (prm_c (slice_example 4 (3 / 4))) (prm_z0 (slice_example 4 (3 / 4)))) = 0"
    using t6 by (simp add: slice_example_facts grid_2_2 s2)
  show ?thesis
    using v0 v1 v2 v3 v4 v5 v6 v7 n0 n1 n2 n3
    by (simp add: slice_example_facts grid_2_2 power2_eq_square)
qed

lemma disk_not_rescaled:
  "\<bar>Zdel 2 (prm_z0 disk_example) ! 0\<bar> \<le> \<bar>prm_c disk_example\<bar>
   \<and> (1 - (Zdel 2 (prm_z0 disk_example) ! 0 / prm_c disk_example)\<^sup>2)\<^sup>2 = 9 / 16
   \<and> array_of (buildSino3D_core_single zeros 2 2 [0] 1 0 disk_example 0 0) 0 = 2 * sqrt (5 / 9)
   \<and> 2 * sqrt (5 / 9) \<noteq> (0::real)
   \<and> zeros 0 +
       val (disk_cell 2 (prm_C0 disk_example * (9 / 16)) (prm_a disk_example * (9 / 16))
              (prm_b disk_example * (9 / 16))
              (fst (centre_xy 0 2 (prm_x0 disk_example) (prm_y0 disk_example)))
              (snd (centre_xy 0 2 (prm_x0 disk_example) (prm_y0 disk_example)))
              (prm_psi_gr1 disk_example * (pi / 180))
              (AnglesRad [0] 1 ! 0) (Sinorange_P_Ar 2 2 ! 0)) = 0"
proof -
  have "array_of (buildSino3D_core_single zeros 2 2 [0] 1 0 disk_example 0 0)
          (0 * 2 * 1 + 0 * 2 + 0) = 2 * sqrt (5 / 9)"
    unfolding single_disk [OF disk_example_facts(1)]
    by (subst loops_cell)
       (simp_all add: disk_example_facts grid_2_2 centre_xy_def AnglesRad_nth zeros_def
          c2_Zdel2 disk_cell_def disk_ray_def Let_def val_def power2_eq_square)
  moreover have "val (disk_cell 2 (prm_C0 disk_example * (9 / 16)) (prm_a disk_example * (9 / 16))
              (prm_b disk_example * (9 / 16))
              (fst (centre_xy 0 2 (prm_x0 disk_example) (prm_y0 disk_example)))
              (snd (centre_xy 0 2 (prm_x0 disk_example) (prm_y0 disk_example)))
              (prm_psi_gr1 disk_example * (pi / 180))
              (AnglesRad [0] 1 ! 0) (Sinorange_P_Ar 2 2 ! 0)) = 0"
    by (simp add: disk_example_facts grid_2_2 centre_xy_def AnglesRad_nth
          disk_cell_def disk_ray_def Let_def val_def power2_eq_square)
  ultimately show ?thesis
    by (simp add: disk_example_facts grid_2_2 zeros_def power2_eq_square)
qed

lemma parabola1_support_halved:
  "\<bar>Zdel 2 (prm_z0 parabola1_example) ! 0\<bar> \<le> \<bar>prm_c parabola1_example\<bar>
   \<and> (1 - (Zdel 2 (prm_z0 parabola1_example) ! 0 / prm_c parabola1_example)\<^sup>2)\<^sup>2 = 25 / 81
   \<and> array_of (buildSino3D_core_single zeros 2 2 [0] 1 0 parabola1_example 0 0) 1 = 0
   \<and> zeros 1 +
       val (parabola1_cell 2 (prm_C0 parabola1_example * (25 / 81))
              (prm_a parabola1_example * (25 / 81)) (prm_b parabola1_example * (25 / 81))
              (fst (centre_xy 0 2 (prm_x0 parabola1_example) (prm_y0 parabola1_example)))
              (snd (centre_xy 0 2 (prm_x0 parabola1_example) (prm_y0 parabola1_example)))
              (prm_psi_gr1 parabola1_example * (pi / 180))
              (AnglesRad [0] 1 ! 0) (Sinorange_P_Ar 2 2 ! 1)) \<noteq> 0"
proof -
  have "array_of (buildSino3D_core_single zeros 2 2 [0] 1 0 parabola1_example 0 0)
          (0 * 2 * 1 + 0 * 2 + 1) = 0"
    unfolding single_parabola1 [OF parabola1_example_facts(1)]
    by (subst loops_cell)
       (simp_all add: parabola1_example_facts grid_2_2 zeros_def c2_Zdel2 power2_eq_square)
  moreover have "val (parabola1_cell 2 (prm_C0 parabola1_example * (25 / 81))
              (prm_a parabola1_example * (25 / 81)) (prm_b parabola1_example * (25 / 81))
              (fst (centre_xy 0 2 (prm_x0 parabola1_example) (prm_y0 parabola1_example)))
              (snd (centre_xy 0 2 (prm_x0 parabola1_example) (prm_y0 parabola1_example)))
              (prm_psi_gr1 parabola1_example * (pi / 180))
              (AnglesRad [0] 1 ! 0) (Sinorange_P_Ar 2 2 ! 1)) \<noteq> 0"
    by (simp add: parabola1_example_facts grid_2_2 centre_xy_def AnglesRad_nth
          parabola1_cell_def parabola1_ray_def Let_def val_def)
  ultimately show ?thesis
    by (simp add: parabola1_example_facts grid_2_2 zeros_def power2_eq_square)
qed

text \<open>
  Claim C4 as stated (all four shapes rescaled by \<open>(1 - (d/c)\<^sup>2)\<^sup>2\<close> on the slices within
  the extent \<open>c\<close>) fails for two of them.

  On \<open>disk_example\<close>, slice 0 is at distance \<open>1/2\<close> from \<open>z0\<close>, inside the extent \<open>c = 1\<close>, and
  the factor would be \<open>9/16\<close>.  The code adds \<open>2 * sqrt (5/9)\<close> to the cell at offset 0, the
  2D disk formula with \<open>C0\<close>, \<open>a\<close>, \<open>b\<close> unscaled; with the three multiplied by \<open>9/16\<close> the
  formula gives nothing there, the cell being outside the shrunken disk.

  On \<open>parabola1_example\<close>, slice 0 is at distance \<open>1/2\<close> from \<open>z0\<close>, inside the extent
  \<open>c = 3/4\<close>, and the factor would be \<open>25/81\<close>.  The code skips the slice (\<^verbatim>\<open>Zdel2\<close> is
  \<open>16/9\<close>, above 1) and leaves the cell at offset 1 at 0, where the 2D formula with the
  three parameters multiplied by \<open>25/81\<close> is not 0.
\<close>

theorem slice_modulation_counterexample:
  "(\<bar>Zdel 2 (prm_z0 disk_example) ! 0\<bar> \<le> \<bar>prm_c disk_example\<bar>
   \<and> (1 - (Zdel 2 (prm_z0 disk_example) ! 0 / prm_c disk_example)\<^sup>2)\<^sup>2 = 9 / 16
   \<and> array_of (buildSino3D_core_single zeros 2 2 [0] 1 0 disk_example 0 0) 0 = 2 * sqrt (5 / 9)
   \<and> 2 * sqrt (5 / 9) \<noteq> (0::real)
   \<and> zeros 0 +
       val (disk_cell 2 (prm_C0 disk_example * (9 / 16)) (prm_a disk_example * (9 / 16))
              (prm_b disk_example * (9 / 16))
              (fst (centre_xy 0 2 (prm_x0 disk_example) (prm_y0 disk_example)))
              (snd (centre_xy 0 2 (prm_x0 disk_example) (prm_y0 disk_example)))
              (prm_psi_gr1 disk_example * (pi / 180))
              (AnglesRad [0] 1 ! 0) (Sinorange_P_Ar 2 2 ! 0)) = 0)
   \<and> (\<bar>Zdel 2 (prm_z0 parabola1_example) ! 0\<bar> \<le> \<bar>prm_c parabola1_example\<bar>
   \<and> (1 - (Zdel 2 (prm_z0 parabola1_example) ! 0 / prm_c parabola1_example)\<^sup>2)\<^sup>2 = 25 / 81
   \<and> array_of (buildSino3D_core_single zeros 2 2 [0] 1 0 parabola1_example 0 0) 1 = 0
   \<and> zeros 1 +
       val (parabola1_cell 2 (prm_C0 parabola1_example * (25 / 81))
              (prm_a parabola1_example * (25 / 81)) (prm_b parabola1_example * (25 / 81))
              (fst (centre_xy 0 2 (prm_x0 parabola1_example) (prm_y0 parabola1_example)))
              (snd (centre_xy 0 2 (prm_x0 parabola1_example) (prm_y0 parabola1_example)))
              (prm_psi_gr1 parabola1_example * (pi / 180))
              (AnglesRad [0] 1 ! 0) (Sinorange_P_Ar 2 2 ! 1)) \<noteq> 0)"
  by (rule conjI [OF disk_not_rescaled parabola1_support_halved])

section \<open>The angle read for an output row\<close>




section \<open>The gaussian reads locals that were never assigned\<close>

lemma gauss_constant_nonzero: "sqrt (pi / ln 2) \<noteq> 0"
proof -
  have "(0::real) < ln 2" by simp
  then have "0 < pi / ln 2" by simp
  then show ?thesis by simp
qed

lemma gauss_example_cell:
  assumes "prm_Object q = 1"
  shows "array_of (buildSino3D_core_single zeros 2 2 [0] 1 0 q g g) (0 * 2 * 1 + 0 * 2 + 1) =
           val (gauss_cell 2 (prm_C0 q) g g
                  (fst (centre_xy 0 2 (prm_x0 q) (prm_y0 q)))
                  (snd (centre_xy 0 2 (prm_x0 q) (prm_y0 q)))
                  (prm_psi_gr1 q * (pi / 180)) 0 (- (2 / 3)))"
  unfolding single_gauss [OF assms]
  by (subst loops_cell) (simp_all add: zeros_def AnglesRad_nth grid_2_2)

text \<open>
  Claim C9 fails on the code.  In the branch of object 1 the locals \<^verbatim>\<open>a1\<close> and \<^verbatim>\<open>b1\<close> are
  read (lines 101 and 106) and never assigned.  On \<open>gauss_example\<close> the cell at offset 1
  receives \<open>sqrt (pi / ln 2) / 2\<close> when the two locals hold 1 on entry and
  \<open>sqrt (pi / ln 2)\<close> when they hold 4, two different values for the same input; and the
  result is the same whatever the extents \<open>a\<close> and \<open>b\<close> of the primitive are.
\<close>

theorem gauss_uninitialised_locals:
  "array_of (buildSino3D_core_single zeros 2 2 [0] 1 0 gauss_example 1 1) 1 = sqrt (pi / ln 2) / 2
   \<and> array_of (buildSino3D_core_single zeros 2 2 [0] 1 0 gauss_example 4 4) 1 = sqrt (pi / ln 2)
   \<and> sqrt (pi / ln 2) / 2 \<noteq> sqrt (pi / ln 2)
   \<and> buildSino3D_core_single zeros 2 2 [0] 1 0 (gauss_example\<lparr>prm_a := 2, prm_b := 3\<rparr>) 1 1 =
      buildSino3D_core_single zeros 2 2 [0] 1 0 gauss_example 1 1"
proof (intro conjI)
  have s4: "sqrt 4 = (2::real)"
    using real_sqrt_abs [of 2] by simp
  have s14: "sqrt (1 / 4) = (1 / 2 :: real)"
    by (simp add: real_sqrt_divide s4)
  have "array_of (buildSino3D_core_single zeros 2 2 [0] 1 0 gauss_example 1 1)
          (0 * 2 * 1 + 0 * 2 + 1) = sqrt (pi / ln 2) / 2"
    by (subst gauss_example_cell)
       (simp_all add: gauss_example_facts centre_xy_def grid_2_2 gauss_cell_def Let_def val_def)
  then show "array_of (buildSino3D_core_single zeros 2 2 [0] 1 0 gauss_example 1 1) 1 =
      sqrt (pi / ln 2) / 2"
    by simp
  have "array_of (buildSino3D_core_single zeros 2 2 [0] 1 0 gauss_example 4 4)
          (0 * 2 * 1 + 0 * 2 + 1) = sqrt (pi / ln 2)"
    by (subst gauss_example_cell)
       (simp_all add: gauss_example_facts centre_xy_def grid_2_2 gauss_cell_def Let_def val_def
          s4 s14)
  then show "array_of (buildSino3D_core_single zeros 2 2 [0] 1 0 gauss_example 4 4) 1 =
      sqrt (pi / ln 2)"
    by simp
  show "sqrt (pi / ln 2) / 2 \<noteq> sqrt (pi / ln 2)"
    using gauss_constant_nonzero by simp
  show "buildSino3D_core_single zeros 2 2 [0] 1 0 (gauss_example\<lparr>prm_a := 2, prm_b := 3\<rparr>) 1 1 =
      buildSino3D_core_single zeros 2 2 [0] 1 0 gauss_example 1 1"
    by (simp add: buildSino3D_core_single_def gauss_example_facts)
qed

section \<open>The cone near its centre and its edge, over the reals\<close>

text \<open>
  What the guards of lines 226--235 give in exact arithmetic.  Finiteness, NaN and the
  rounding of \<^verbatim>\<open>pps2 - rlogi\<close> near the edge are properties of binary32 arithmetic and
  are not expressed here.
\<close>

lemma cone_terms_centre: "cone_terms 0 = (1, 0)"
  by (simp add: cone_terms_def EPS_def)

lemma cone_terms_small:
  assumes "AA6 \<le> EPS"
  shows "snd (cone_terms AA6) = 0"
  using assms by (simp add: cone_terms_def Let_def)

lemma cone_terms_edge:
  assumes "1 - EPS \<le> AA6"
  shows "cone_terms AA6 = (0, 0)"
  using assms by (simp add: cone_terms_def Let_def)

lemma ln_le_half_diff:
  fixes y :: real
  assumes "1 \<le> y"
  shows "ln y \<le> (y - inverse y) / 2"
proof -
  have "0 \<le> ln y" using assms by simp
  then have "ln y \<le> (exp (ln y) - inverse (exp (ln y))) / 2"
    by (rule real_le_x_sinh)
  then show ?thesis using assms by simp
qed

lemma cone_factor_bounds:
  assumes "0 \<le> AA6"
  shows "0 \<le> fst (cone_terms AA6) - snd (cone_terms AA6)
       \<and> fst (cone_terms AA6) - snd (cone_terms AA6) \<le> 1"
proof (cases "AA6 < 1 - EPS")
  case False
  then show ?thesis by (simp add: cone_terms_edge)
next
  case True
  define p where "p = sqrt (1 - AA6)"
  have e: "0 < EPS" by (simp add: EPS_def)
  have lt1: "AA6 < 1" using True e by simp
  have p0: "0 < p" using lt1 by (simp add: p_def)
  have p1: "p \<le> 1" using assms by (simp add: p_def)
  have pps2: "fst (cone_terms AA6) = p"
    using True lt1 by (simp add: cone_terms_def Let_def p_def)
  show ?thesis
  proof (cases "AA6 > EPS \<and> p \<noteq> 1")
    case False
    then have "snd (cone_terms AA6) = 0"
      using True lt1 by (auto simp add: cone_terms_def Let_def p_def)
    then show ?thesis using pps2 p0 p1 by simp
  next
    case g: True
    then have plt: "p < 1" using p1 by simp
    define y where "y = (1 + p) / (1 - p)"
    have y1: "1 \<le> y" using p0 plt by (simp add: y_def field_simps)
    have ypos: "0 < y" using y1 by simp
    have rl: "snd (cone_terms AA6) = 0.5 * AA6 * ln y"
      using True lt1 g ypos by (simp add: cone_terms_def Let_def p_def y_def)
    have sq: "p\<^sup>2 = 1 - AA6" using lt1 by (simp add: p_def)
    then have A: "AA6 = 1 - p\<^sup>2" by simp
    have Apos: "0 < AA6" using g e by simp
    have "ln y \<le> (y - inverse y) / 2" by (rule ln_le_half_diff [OF y1])
    also have "(y - inverse y) / 2 = 2 * p / (1 - p\<^sup>2)"
    proof -
      have n: "1 - p \<noteq> 0" "1 + p \<noteq> 0" using p0 plt by simp_all
      have "y - inverse y = ((1 + p) * (1 + p) - (1 - p) * (1 - p)) / ((1 - p) * (1 + p))"
        using n by (simp add: y_def field_simps)
      also have "(1 + p) * (1 + p) - (1 - p) * (1 - p) = 4 * p"
        by (simp add: algebra_simps)
      also have "(1 - p) * (1 + p) = 1 - p\<^sup>2"
        by (simp add: algebra_simps power2_eq_square)
      finally have "y - inverse y = 4 * p / (1 - p\<^sup>2)" .
      then have "(y - inverse y) / 2 = (4 * p / (1 - p\<^sup>2)) / 2" by (rule arg_cong)
      also have "\<dots> = 2 * p / (1 - p\<^sup>2)" by (cases "1 - p\<^sup>2 = 0") (simp_all add: field_simps)
      finally show ?thesis .
    qed
    finally have "ln y \<le> 2 * p / AA6" by (simp add: A)
    then have "AA6 * ln y \<le> 2 * p"
      using Apos by (simp add: field_simps)
    then have up: "0.5 * AA6 * ln y \<le> p" by simp
    have "0 \<le> ln y" using y1 by simp
    then have lo: "0 \<le> 0.5 * AA6 * ln y" using Apos by simp
    show ?thesis using pps2 rl up lo p1 by simp
  qed
qed

end
